theory Spec2Isabelle
  imports Main
begin

section \<open>PDF on Submit: the hook handler of \<^verbatim>\<open>pdf_on_submit/attach_pdf.py\<close>\<close>

text \<open>
  The module is glue over a host framework.  The embedding keeps the module's own control
  flow and takes the host's services as a parameter, the record \<open>host\<close>: each field is
  one service the module calls.  What the module does to the host is recorded in a state:
  the File records saved, the folders that exist, the language in force, and the
  chronological list of the host calls made.

  Strings are lists of characters; PDF data and HTML are strings.  A Python value that may
  be \<^verbatim>\<open>None\<close> is an \<open>option\<close>.  The name of a document is a string or an integer.
\<close>

subsection \<open>Python strings\<close>

type_synonym pdf = string
type_synonym html = string

text \<open>Truthiness of a value that is \<^verbatim>\<open>None\<close> or a string: \<^verbatim>\<open>if title\<close>, \<^verbatim>\<open>if auto_name\<close>.\<close>

definition truthy :: "string option \<Rightarrow> bool" where
  "truthy v = (case v of None \<Rightarrow> False | Some s \<Rightarrow> s \<noteq> [])"

text \<open>How an f-string prints a value that may be \<^verbatim>\<open>None\<close>.\<close>

definition str :: "string option \<Rightarrow> string" where
  "str v = (case v of None \<Rightarrow> ''None'' | Some s \<Rightarrow> s)"

text \<open>
  \<^verbatim>\<open>s.replace(old, new)\<close> for one-character \<open>old\<close> and \<open>new\<close>, the only use the module
  makes of it: every occurrence is replaced.
\<close>

definition replace :: "char \<Rightarrow> char \<Rightarrow> string \<Rightarrow> string" where
  "replace old new s = map (\<lambda>c. if c = old then new else c) s"

text \<open>
  \<^verbatim>\<open>s.lower()\<close> on the letters A to Z; every other character is kept.  The module only
  tests the result for the ASCII prefix \<^verbatim>\<open>format:\<close>.
\<close>

definition lower_char :: "char \<Rightarrow> char" where
  "lower_char c =
     (let n = (of_char c :: nat) in if 65 \<le> n \<and> n \<le> 90 then char_of (n + 32) else c)"

definition lower :: "string \<Rightarrow> string" where
  "lower s = map lower_char s"

definition startswith :: "string \<Rightarrow> string \<Rightarrow> bool" where
  "startswith s p = (take (length p) s = p)"

text \<open>\<^verbatim>\<open>"/".join([parent, folder])\<close>\<close>

definition join_path :: "string \<Rightarrow> string \<Rightarrow> string" where
  "join_path parent fld = parent @ ''/'' @ fld"

text \<open>
  \<^verbatim>\<open>template.format(arg)\<close> for a template whose only replacement field is \<^verbatim>\<open>{0}\<close>.
\<close>

function format0 :: "string \<Rightarrow> string \<Rightarrow> string" where
  "format0 s a =
     (if s = [] then []
      else if take 3 s = ''{0}'' then a @ format0 (drop 3 s) a
      else hd s # format0 (tl s) a)"
  by pat_completeness auto
termination
  by (relation "measure (\<lambda>(s, a). length s)") auto

declare format0.simps [simp del]

text \<open>\<^verbatim>\<open>str(i)\<close> for an integer, as an f-string prints it.\<close>

definition digit :: "nat \<Rightarrow> char" where
  "digit n = char_of (48 + n)"

function decimal :: "nat \<Rightarrow> string" where
  "decimal n = (if n < 10 then [digit n] else decimal (n div 10) @ [digit (n mod 10)])"
  by pat_completeness auto
termination
  by (relation "measure (\<lambda>n. n)") auto

declare decimal.simps [simp del]

definition str_int :: "int \<Rightarrow> string" where
  "str_int i = (if i < 0 then CHR ''-'' # decimal (nat (- i)) else decimal (nat i))"

subsection \<open>Exceptions and outcomes\<close>

text \<open>
  An exception with its message: a \<^verbatim>\<open>TypeError\<close>, an \<^verbatim>\<open>AttributeError\<close>, or any other
  subclass of \<^verbatim>\<open>Exception\<close>.  The clause \<^verbatim>\<open>except TypeError\<close> catches the first, the
  clause \<^verbatim>\<open>except Exception\<close> all three.
\<close>

datatype exc = TypeError string | AttributeError string | Exception string

text \<open>\<^verbatim>\<open>str(e)\<close>, as an f-string prints the exception.\<close>

fun message :: "exc \<Rightarrow> string" where
  "message (TypeError m) = m"
| "message (AttributeError m) = m"
| "message (Exception m) = m"

text \<open>
  How a handler ends: it runs to its last statement, it leaves through one of its
  \<^verbatim>\<open>return\<close> statements, or an exception leaves it uncaught.
\<close>

datatype outcome = Completed | Returned | Raised exc

subsection \<open>Documents, settings, files\<close>

text \<open>
  The name of a document: a string, or an integer for a doctype that numbers its
  documents.
\<close>

datatype docname = Name_str string | Name_int int

text \<open>How an f-string or \<^verbatim>\<open>format\<close> prints a name.\<close>

fun str_name :: "docname \<Rightarrow> string" where
  "str_name (Name_str s) = s"
| "str_name (Name_int i) = str_int i"

text \<open>
  \<^verbatim>\<open>n.replace(old, new)\<close> on a name: a string has the method, an integer has not and the
  call raises an \<^verbatim>\<open>AttributeError\<close>, with the message \<open>no_replace\<close>.
\<close>

definition no_replace :: string where
  "no_replace = CHR 0x27 # ''int' object has no attribute 'replace'' @ [CHR 0x27]"

fun name_replace :: "char \<Rightarrow> char \<Rightarrow> docname \<Rightarrow> exc + string" where
  "name_replace old new (Name_str s) = Inr (replace old new s)"
| "name_replace old new (Name_int i) = Inl (AttributeError no_replace)"

text \<open>A document of the host: the module reads its \<open>doctype\<close> and its \<open>name\<close>.\<close>

record doc =
  doctype :: string
  name :: docname
  data :: "(string \<times> string) list"

text \<open>
  One row of the child table \<^verbatim>\<open>enabled_for\<close> of the single document
  \<^verbatim>\<open>PDF on Submit Settings\<close>.  \<open>target_folder\<close> is \<open>None\<close> when the row has no such
  attribute (\<^verbatim>\<open>getattr\<close> then gives its default), and \<open>Some v\<close> when it has, with value \<open>v\<close>.
\<close>

record row =
  document_type :: string
  auto_name :: "string option"
  print_format :: "string option"
  letter_head :: "string option"
  target_folder :: "string option option"

record settings =
  enabled_for :: "row list"

text \<open>\<^verbatim>\<open>settings.get("enabled_for", {"document_type": dt})\<close>: the rows that match the filter.\<close>

definition settings_get :: "settings \<Rightarrow> string \<Rightarrow> row list" where
  "settings_get st dt = filter (\<lambda>r. document_type r = dt) (enabled_for st)"

text \<open>The fields \<^verbatim>\<open>save_and_attach\<close> sets on the new File document.\<close>

record file_doc =
  file_name :: string
  content :: pdf
  folder :: "string option"
  is_private :: int
  attached_to_doctype :: string
  attached_to_name :: docname

record progress =
  percent :: int
  title :: string
  description :: "string option"

subsection \<open>The host\<close>

text \<open>
  The services of the host framework, as the module calls them.  A result of type
  \<open>exc + 'a\<close> is an exception raised (\<open>Inl\<close>) or a value returned (\<open>Inr\<close>): the renderers,
  the reading of a document, the naming by format, the saving of a File, and the import
  and the call of the e-invoice hook may raise.  The renderer of the print-format builder
  may also return \<^verbatim>\<open>None\<close>.  The renderers and the translation read the language in force,
  their first argument here.  The other calls (the settings, the folders, the logs, the
  realtime events) are taken to return normally.
\<close>

record host =
  get_single :: "string \<Rightarrow> settings"
  render_pdf :: "string \<Rightarrow> string option \<Rightarrow> doc \<Rightarrow> string option \<Rightarrow> exc + pdf option"
  print_format_builder_beta :: "string option \<Rightarrow> bool"
  get_doc :: "string \<Rightarrow> docname \<Rightarrow> exc + doc"
  get_print :: "string \<Rightarrow> string \<Rightarrow> docname \<Rightarrow> string option \<Rightarrow> string option \<Rightarrow> exc + html"
  get_pdf :: "string \<Rightarrow> html \<Rightarrow> exc + pdf"
  get_installed_apps :: "string list"
  import_attach_xml_to_pdf :: "exc + unit"
  attach_xml_to_pdf :: "docname \<Rightarrow> pdf \<Rightarrow> exc + pdf"
  format_autoname :: "string \<Rightarrow> doc \<Rightarrow> exc + string"
  file_save :: "file_doc \<Rightarrow> exc + unit"
  translate :: "string \<Rightarrow> string \<Rightarrow> string"
  print_language :: "string option \<Rightarrow> string \<Rightarrow> string"

text \<open>One call into the host, with its arguments.\<close>

datatype call =
    Get_single string
  | Log string
  | Log_error string
  | Render_pdf "string option" doc "string option"
  | Db_get_value string "string option" string
  | Get_doc string docname
  | Get_print string docname "string option" "string option"
  | Get_pdf html
  | Get_installed_apps
  | Attach_xml_to_pdf docname pdf
  | Msgprint string
  | Db_exists string string
  | Create_new_folder string string
  | Publish_realtime string progress string docname
  | Format_autoname string doc
  | File_save file_doc

record state =
  files :: "file_doc list"
  folders :: "string list"
  cur_lang :: string
  calls :: "call list"

definition call :: "call \<Rightarrow> state \<Rightarrow> state" where
  "call c s = s\<lparr>calls := calls s @ [c]\<rparr>"

text \<open>
  \<^verbatim>\<open>create_new_folder(folder, parent)\<close>: the host stores a folder whose name is the joined
  path, the name \<^verbatim>\<open>frappe.db.exists("File", ...)\<close> is asked for.
\<close>

definition create_new_folder :: "string \<Rightarrow> string \<Rightarrow> state \<Rightarrow> state" where
  "create_new_folder fld parent s =
     call (Create_new_folder fld parent) (s\<lparr>folders := folders s @ [join_path parent fld]\<rparr>)"

definition db_exists_file :: "string \<Rightarrow> state \<Rightarrow> bool" where
  "db_exists_file nm s = (nm \<in> set (folders s))"

subsection \<open>The module\<close>

text \<open>
  \<^verbatim>\<open>set_name_from_naming_options(autoname, doc)\<close>: the name made by the host from the
  format, or the name of the document.
\<close>

definition set_name_from_naming_options ::
  "host \<Rightarrow> string \<Rightarrow> doc \<Rightarrow> state \<Rightarrow> (exc + docname) \<times> state" where
  "set_name_from_naming_options h autoname d s =
     (let autoname' = lower autoname in
      if startswith autoname' ''format:''
      then (case format_autoname h autoname d of
              Inl e \<Rightarrow> (Inl e, call (Format_autoname autoname d) s)
            | Inr n \<Rightarrow> (Inr (Name_str n), call (Format_autoname autoname d) s))
      else (Inr (name d), s))"

text \<open>
  Lines 146 to 151 of \<^verbatim>\<open>save_and_attach\<close>: the file name.  The document is read and named
  only when \<^verbatim>\<open>auto_name\<close> is given; \<^verbatim>\<open>replace\<close> is called on the name chosen.
\<close>

definition save_and_attach_file_name ::
  "host \<Rightarrow> string \<Rightarrow> docname \<Rightarrow> string option \<Rightarrow> state \<Rightarrow> (exc + string) \<times> state" where
  "save_and_attach_file_name h to_doctype to_name an s =
     (case an of
        None \<Rightarrow>
          (case name_replace CHR ''/'' CHR ''-'' to_name of
             Inl e \<Rightarrow> (Inl e, s)
           | Inr b \<Rightarrow> (Inr (b @ ''.pdf''), s))
      | Some a \<Rightarrow>
          if a \<noteq> [] then
            (let s1 = call (Get_doc to_doctype to_name) s in
             case get_doc h to_doctype to_name of
               Inl e \<Rightarrow> (Inl e, s1)
             | Inr d \<Rightarrow>
                 (case set_name_from_naming_options h a d s1 of
                    (Inl e, s2) \<Rightarrow> (Inl e, s2)
                  | (Inr pdf_name, s2) \<Rightarrow>
                      (case name_replace CHR ''/'' CHR ''-'' pdf_name of
                         Inl e \<Rightarrow> (Inl e, s2)
                       | Inr b \<Rightarrow> (Inr (b @ ''.pdf''), s2))))
          else
            (case name_replace CHR ''/'' CHR ''-'' to_name of
               Inl e \<Rightarrow> (Inl e, s)
             | Inr b \<Rightarrow> (Inr (b @ ''.pdf''), s)))"

text \<open>
  \<^verbatim>\<open>save_and_attach(content, to_doctype, to_name, folder, auto_name)\<close>.  The result is
  \<open>Inl e\<close> when the exception \<open>e\<close> leaves the function and \<open>Inr ()\<close> when it returns.  The
  File document is stored, with the fields the module gave it, when \<^verbatim>\<open>file.save()\<close>
  returns.
\<close>

definition save_and_attach ::
  "host \<Rightarrow> pdf \<Rightarrow> string \<Rightarrow> docname \<Rightarrow> string option \<Rightarrow> string option \<Rightarrow> state
     \<Rightarrow> (exc + unit) \<times> state" where
  "save_and_attach h cnt to_doctype to_name fld an s =
     (case save_and_attach_file_name h to_doctype to_name an s of
        (Inl e, s1) \<Rightarrow> (Inl e, s1)
      | (Inr fname, s1) \<Rightarrow>
          (let s2 = call (Log (''Saving PDF as '' @ fname @ '' in folder '' @ str fld)) s1;
               f = \<lparr>file_name = fname, content = cnt, folder = fld, is_private = 0,
                    attached_to_doctype = to_doctype, attached_to_name = to_name\<rparr>;
               s3 = call (File_save f) s2
           in case file_save h f of
                Inl e \<Rightarrow> (Inl e, s3)
              | Inr u \<Rightarrow>
                  (Inr (),
                   call (Log (''File saved: '' @ file_name f @ '', Private: 0, Folder: ''
                              @ str (folder f)))
                     (s3\<lparr>files := files s3 @ [f]\<rparr>))))"

text \<open>\<^verbatim>\<open>get_pdf_data(doctype, name, print_format, letterhead)\<close>: Document, HTML, PDF.\<close>

definition get_pdf_data ::
  "host \<Rightarrow> string \<Rightarrow> docname \<Rightarrow> string option \<Rightarrow> string option \<Rightarrow> state \<Rightarrow> (exc + pdf) \<times> state" where
  "get_pdf_data h dt nm pf lh s =
     (let s1 = call (Log (''Generating HTML for '' @ dt @ '' '' @ str_name nm
                          @ '' with print format '' @ str pf)) s;
          s2 = call (Get_print dt nm pf lh) s1
      in case get_print h (cur_lang s2) dt nm pf lh of
           Inl e \<Rightarrow> (Inl e, s2)
         | Inr page \<Rightarrow>
             (let s3 = call (Log (''HTML generated for '' @ dt @ '' '' @ str_name nm)) s2;
                  s4 = call (Get_pdf page) s3
              in case get_pdf h (cur_lang s4) page of
                   Inl e \<Rightarrow> (Inl e, s4)
                 | Inr p \<Rightarrow>
                     (Inr p, call (Log (''PDF generated for '' @ dt @ '' '' @ str_name nm)) s4)))"

text \<open>\<^verbatim>\<open>create_folder(folder, parent)\<close>: make sure the folder exists and return its name.\<close>

definition create_folder :: "string \<Rightarrow> string \<Rightarrow> state \<Rightarrow> string \<times> state" where
  "create_folder fld parent s =
     (let new_folder_name = join_path parent fld;
          s1 = call (Db_exists ''File'' new_folder_name) s
      in if \<not> db_exists_file new_folder_name s1
         then (new_folder_name, create_new_folder fld parent s1)
         else (new_folder_name, s1))"

text \<open>
  \<^verbatim>\<open>attach_pdf(doc, event)\<close>, the handler of the on-submit hook.  The call of
  \<^verbatim>\<open>save_and_attach\<close> on line 44 is after the \<^verbatim>\<open>try\<close> statement: an exception of it leaves
  the handler.
\<close>

definition attach_pdf :: "host \<Rightarrow> doc \<Rightarrow> state \<Rightarrow> outcome \<times> state" where
  "attach_pdf h d s0 =
     (let s1 = call (Get_single ''PDF on Submit Settings'') s0;
          st = get_single h ''PDF on Submit Settings''
      in case settings_get st (doctype d) of
           [] \<Rightarrow> (Returned, call (Log_error (''No enabled doctype found for '' @ doctype d)) s1)
         | enabled_doctype # _ \<Rightarrow>
             (let an = auto_name enabled_doctype;
                  pf = print_format enabled_doctype;
                  lh = letter_head enabled_doctype;
                  tf = (case target_folder enabled_doctype of None \<Rightarrow> Some ''Home'' | Some v \<Rightarrow> v);
                  s2 = call (Log (''Generating PDF for '' @ doctype d @ '' '' @ str_name (name d)
                                   @ '' with print format '' @ str pf)) s1;
                  s3 = call (Render_pdf pf d lh) s2
              in case render_pdf h (cur_lang s3) pf d lh of
                   Inl (TypeError e) \<Rightarrow>
                     (Returned, call (Log_error (''Error generating PDF: '' @ e)) s3)
                 | Inl e \<Rightarrow>
                     (Returned,
                      call (Log_error (''Unexpected error generating PDF: '' @ message e)) s3)
                 | Inr None \<Rightarrow>
                     (Returned, call (Log_error ''PDF data is None. Skipping attachment.'') s3)
                 | Inr (Some pdf_data) \<Rightarrow>
                     (let s4 = call (Log (''PDF data generated successfully for ''
                                          @ str_name (name d))) s3
                      in case save_and_attach h pdf_data (doctype d) (name d) tf an s4 of
                           (Inl e, s5) \<Rightarrow> (Raised e, s5)
                         | (Inr u, s5) \<Rightarrow>
                             (Completed,
                              call (Log (''PDF saved and attached successfully for ''
                                         @ str_name (name d))) s5))))"

text \<open>
  \<^verbatim>\<open>publish_progress(percent)\<close>, the inner function of \<^verbatim>\<open>execute\<close>: a realtime event
  \<^verbatim>\<open>progress\<close> for the document \<open>dt\<close>, \<open>nm\<close>.
\<close>

definition publish_progress :: "host \<Rightarrow> string \<Rightarrow> docname \<Rightarrow> int \<Rightarrow> state \<Rightarrow> state" where
  "publish_progress h dt nm p s =
     call (Publish_realtime ''progress''
             \<lparr>percent = p, title = translate h (cur_lang s) ''Creating PDF ...'',
              description = None\<rparr> dt nm) s"

text \<open>
  Lines 74 to 82 of \<^verbatim>\<open>execute\<close>: the folder of the doctype under \<^verbatim>\<open>Home\<close> and, when a
  title is given, the folder of the title under it.  The result is the target folder.
\<close>

definition execute_folders ::
  "host \<Rightarrow> string \<Rightarrow> docname \<Rightarrow> string option \<Rightarrow> bool \<Rightarrow> state \<Rightarrow> string \<times> state" where
  "execute_folders h dt nm ttl show_progress s0 =
     (let s1 = (if show_progress then publish_progress h dt nm 0 s0 else s0);
          (doctype_folder, s2) = create_folder dt ''Home'' s1;
          (title_folder, s3) =
            (case ttl of
               None \<Rightarrow> (None, s2)
             | Some t \<Rightarrow>
                 if t \<noteq> [] then
                   (let (n, s') = create_folder t doctype_folder s2 in (Some n, s'))
                 else (None, s2));
          tf = (case title_folder of
                  None \<Rightarrow> doctype_folder
                | Some n \<Rightarrow> if n \<noteq> [] then n else doctype_folder);
          s4 = (if show_progress then publish_progress h dt nm 33 s3 else s3)
      in (tf, s4))"

text \<open>
  Lines 84 to 98 of \<^verbatim>\<open>execute\<close>, the block under \<^verbatim>\<open>with print_language(lang)\<close>.  The
  result is the PDF data, or how the block leaves the handler: \<open>Returned\<close> through one of
  the two \<^verbatim>\<open>return\<close> statements, \<open>Raised\<close> with an exception that no \<^verbatim>\<open>except\<close> clause
  of the block catches.  The only clause is \<^verbatim>\<open>except TypeError\<close>, around the renderer of
  the print-format builder.  The language is put back when the block is left.
\<close>

definition execute_render ::
  "host \<Rightarrow> string \<Rightarrow> docname \<Rightarrow> string option \<Rightarrow> string option \<Rightarrow> string option \<Rightarrow> state
     \<Rightarrow> (outcome + pdf) \<times> state" where
  "execute_render h dt nm lng pf lh s =
     (let old_lang = cur_lang s;
          s1 = s\<lparr>cur_lang := print_language h lng old_lang\<rparr>;
          s2 = call (Db_get_value ''Print Format'' pf ''print_format_builder_beta'') s1;
          (r, s3) =
            (if print_format_builder_beta h pf then
               (let s' = call (Get_doc dt nm) s2 in
                case get_doc h dt nm of
                  Inl e \<Rightarrow> (Inl (Raised e), s')
                | Inr d \<Rightarrow>
                    (let s'' = call (Render_pdf pf d lh) s'
                     in case render_pdf h (cur_lang s'') pf d lh of
                          Inl (TypeError e) \<Rightarrow>
                            (Inl Returned, call (Log_error (''Error generating PDF: '' @ e)) s'')
                        | Inl e \<Rightarrow> (Inl (Raised e), s'')
                        | Inr None \<Rightarrow>
                            (Inl Returned,
                             call (Log_error ''PDF data is None. Skipping attachment.'') s'')
                        | Inr (Some pdf_data) \<Rightarrow>
                            (Inr pdf_data,
                             call (Log (''PDF data generated successfully for ''
                                        @ str_name nm)) s'')))
             else
               (case get_pdf_data h dt nm pf lh s2 of
                  (Inl e, s') \<Rightarrow> (Inl (Raised e), s')
                | (Inr pdf_data, s') \<Rightarrow> (Inr pdf_data, s')))
      in (r, s3\<lparr>cur_lang := old_lang\<rparr>))"

text \<open>
  Lines 104 to 108 of \<^verbatim>\<open>execute\<close>: the \<^verbatim>\<open>except Exception\<close> clause of the e-invoice hook.
\<close>

definition execute_einvoice_failed :: "host \<Rightarrow> docname \<Rightarrow> bool \<Rightarrow> state \<Rightarrow> state" where
  "execute_einvoice_failed h nm show_progress s =
     (let msg = format0 (translate h (cur_lang s)
                           ''Failed to attach XML to PDF for Sales Invoice {0}'') (str_name nm);
          s1 = (if show_progress then call (Msgprint msg) s else s)
      in call (Log_error msg) s1)"

text \<open>
  Lines 100 to 108 of \<^verbatim>\<open>execute\<close>: the e-invoice hook for a Sales Invoice.  The list of
  installed apps is only asked for when the doctype is \<^verbatim>\<open>Sales Invoice\<close>.  Any exception
  of the import or of the hook is caught: the PDF data stays as it was.
\<close>

definition execute_einvoice ::
  "host \<Rightarrow> string \<Rightarrow> docname \<Rightarrow> bool \<Rightarrow> pdf \<Rightarrow> state \<Rightarrow> pdf \<times> state" where
  "execute_einvoice h dt nm show_progress pdf_data s =
     (if dt = ''Sales Invoice'' then
        (let s1 = call Get_installed_apps s in
         if ''eu_einvoice'' \<in> set (get_installed_apps h) then
           (case import_attach_xml_to_pdf h of
              Inl e \<Rightarrow> (pdf_data, execute_einvoice_failed h nm show_progress s1)
            | Inr u \<Rightarrow>
                (let s2 = call (Attach_xml_to_pdf nm pdf_data) s1 in
                 case attach_xml_to_pdf h nm pdf_data of
                   Inr pdf_data' \<Rightarrow> (pdf_data', s2)
                 | Inl e \<Rightarrow> (pdf_data, execute_einvoice_failed h nm show_progress s2)))
         else (pdf_data, s1))
      else (pdf_data, s))"

text \<open>
  Lines 110 to 117 of \<^verbatim>\<open>execute\<close>: the File is saved in the target folder and
  attached.  An exception of \<^verbatim>\<open>save_and_attach\<close> leaves the handler.
\<close>

definition execute_save ::
  "host \<Rightarrow> string \<Rightarrow> docname \<Rightarrow> bool \<Rightarrow> string option \<Rightarrow> string \<Rightarrow> pdf \<Rightarrow> state
     \<Rightarrow> outcome \<times> state" where
  "execute_save h dt nm show_progress an tf pdf_data s =
     (let s1 = (if show_progress then publish_progress h dt nm 66 s else s) in
      case save_and_attach h pdf_data dt nm (Some tf) an s1 of
        (Inl e, s2) \<Rightarrow> (Raised e, s2)
      | (Inr u, s2) \<Rightarrow>
          (let s3 = call (Log (''PDF saved and attached successfully for '' @ str_name nm)) s2
           in (Completed, if show_progress then publish_progress h dt nm 100 s3 else s3)))"

text \<open>
  \<^verbatim>\<open>execute(doctype, name, title, lang, show_progress, auto_name, print_format, letter_head)\<close>,
  the job the queue runs: the four blocks in the order of the source.  The arguments are
  written \<open>dt nm ttl lng show_progress an pf lh\<close>.
\<close>

definition execute ::
  "host \<Rightarrow> string \<Rightarrow> docname \<Rightarrow> string option \<Rightarrow> string option \<Rightarrow> bool \<Rightarrow> string option
     \<Rightarrow> string option \<Rightarrow> string option \<Rightarrow> state \<Rightarrow> outcome \<times> state" where
  "execute h dt nm ttl lng show_progress an pf lh s0 =
     (let (tf, s1) = execute_folders h dt nm ttl show_progress s0 in
      case execute_render h dt nm lng pf lh s1 of
        (Inl out, s2) \<Rightarrow> (out, s2)
      | (Inr pdf_data, s2) \<Rightarrow>
          (let (pdf_data', s3) = execute_einvoice h dt nm show_progress pdf_data s2
           in execute_save h dt nm show_progress an tf pdf_data' s3))"

subsection \<open>What a run adds to the state\<close>

text \<open>The host calls and the File records a run adds to those of its starting state.\<close>

definition new_calls :: "state \<Rightarrow> state \<Rightarrow> call list" where
  "new_calls s s' = drop (length (calls s)) (calls s')"

definition new_files :: "state \<Rightarrow> state \<Rightarrow> file_doc list" where
  "new_files s s' = drop (length (files s)) (files s')"

text \<open>The realtime events among a list of calls.\<close>

fun is_publish :: "call \<Rightarrow> bool" where
  "is_publish (Publish_realtime _ _ _ _) = True"
| "is_publish _ = False"

definition published :: "call list \<Rightarrow> call list" where
  "published cs = filter is_publish cs"

text \<open>
  The steps the specification names, and the step a host call belongs to: reading the
  settings, rendering (to HTML, to PDF), making sure a folder exists, saving the File,
  publishing a progress event.  Logging, reading a document and the e-invoice hook are
  none of these steps.
\<close>

datatype step = Fetch_settings | Render_PDF | Create_folder_path | Save_file
  | Publish_progress int

fun step_of :: "call \<Rightarrow> step list" where
  "step_of (Get_single _) = [Fetch_settings]"
| "step_of (Render_pdf _ _ _) = [Render_PDF]"
| "step_of (Get_print _ _ _ _) = [Render_PDF]"
| "step_of (Get_pdf _) = [Render_PDF]"
| "step_of (Db_exists _ _) = [Create_folder_path]"
| "step_of (Create_new_folder _ _) = [Create_folder_path]"
| "step_of (File_save _) = [Save_file]"
| "step_of (Publish_realtime _ p _ _) = [Publish_progress (percent p)]"
| "step_of _ = []"

definition steps :: "call list \<Rightarrow> step list" where
  "steps cs = concat (map step_of cs)"

text \<open>
  The order of the four main steps as the specification lists them: settings, render,
  folder, save.  Progress events are left out and a step made of several host calls
  counts once.
\<close>

fun is_main_step :: "step \<Rightarrow> bool" where
  "is_main_step (Publish_progress _) = False"
| "is_main_step _ = True"

definition listed_order :: "step list \<Rightarrow> bool" where
  "listed_order ss =
     (remdups_adj (filter is_main_step ss)
        = [Fetch_settings, Render_PDF, Create_folder_path, Save_file])"

text \<open>
  The name \<^verbatim>\<open>save_and_attach\<close> chooses for the file, before \<^verbatim>\<open>/\<close> is replaced and
  \<^verbatim>\<open>.pdf\<close> added: the name made from \<^verbatim>\<open>auto_name\<close> when one is given, the name of the
  document otherwise; or the exception raised on the way.
\<close>

definition chosen_name :: "host \<Rightarrow> string \<Rightarrow> docname \<Rightarrow> string option \<Rightarrow> exc + docname" where
  "chosen_name h to_doctype to_name an =
     (case an of
        None \<Rightarrow> Inr to_name
      | Some a \<Rightarrow>
          if a \<noteq> [] then
            (case get_doc h to_doctype to_name of
               Inl e \<Rightarrow> Inl e
             | Inr d \<Rightarrow>
                 if startswith (lower a) ''format:''
                 then (case format_autoname h a d of Inl e \<Rightarrow> Inl e | Inr n \<Rightarrow> Inr (Name_str n))
                 else Inr (name d))
          else Inr to_name)"

text \<open>
  The File document a call of \<^verbatim>\<open>save_and_attach\<close> stores, or the exception that leaves
  the call.
\<close>

definition saved_file ::
  "host \<Rightarrow> pdf \<Rightarrow> string \<Rightarrow> docname \<Rightarrow> string option \<Rightarrow> string option \<Rightarrow> exc + file_doc" where
  "saved_file h cnt to_doctype to_name fld an =
     (case chosen_name h to_doctype to_name an of
        Inl e \<Rightarrow> Inl e
      | Inr n \<Rightarrow>
          (case name_replace CHR ''/'' CHR ''-'' n of
             Inl e \<Rightarrow> Inl e
           | Inr b \<Rightarrow>
               (let f = \<lparr>file_name = b @ ''.pdf'', content = cnt, folder = fld, is_private = 0,
                         attached_to_doctype = to_doctype, attached_to_name = to_name\<rparr>
                in case file_save h f of Inl e \<Rightarrow> Inl e | Inr u \<Rightarrow> Inr f)))"

text \<open>The realtime event \<^verbatim>\<open>publish_progress(p)\<close> publishes in a run that starts in \<open>s\<close>.\<close>

definition progress_event :: "host \<Rightarrow> state \<Rightarrow> string \<Rightarrow> docname \<Rightarrow> int \<Rightarrow> call" where
  "progress_event h s dt nm p =
     Publish_realtime ''progress''
       \<lparr>percent = p, title = translate h (cur_lang s) ''Creating PDF ...'', description = None\<rparr>
       dt nm"

text \<open>The errors logged among a list of calls.\<close>

fun is_log_error :: "call \<Rightarrow> bool" where
  "is_log_error (Log_error _) = True"
| "is_log_error _ = False"

definition log_errors :: "call list \<Rightarrow> call list" where
  "log_errors cs = filter is_log_error cs"

subsection \<open>A concrete host\<close>

text \<open>
  A small installation on which the handlers can be run: one enabled doctype,
  \<^verbatim>\<open>Sales Order\<close>, with a print format of the print-format builder; a renderer for each
  of the two ways to a PDF; no e-invoice app; every File can be saved.
\<close>

definition so_row :: row where
  "so_row = \<lparr>document_type = ''Sales Order'', auto_name = None,
             print_format = Some ''Standard'', letter_head = None, target_folder = None\<rparr>"

definition so_doc :: doc where
  "so_doc = \<lparr>doctype = ''Sales Order'', name = Name_str ''SO/0001'', data = []\<rparr>"

text \<open>A Sales Order of an installation that numbers its documents.\<close>

definition numbered_doc :: doc where
  "numbered_doc = \<lparr>doctype = ''Sales Order'', name = Name_int 42, data = []\<rparr>"

definition quotation_doc :: doc where
  "quotation_doc = \<lparr>doctype = ''Quotation'', name = Name_str ''QTN-0001'', data = []\<rparr>"

definition demo_host :: host where
  "demo_host =
     \<lparr>get_single = (\<lambda>_. \<lparr>enabled_for = [so_row]\<rparr>),
      render_pdf = (\<lambda>l pf d lh. Inr (Some (''%PDF builder '' @ str_name (name d)))),
      print_format_builder_beta = (\<lambda>pf. True),
      get_doc = (\<lambda>dt nm. Inr \<lparr>doctype = dt, name = nm, data = []\<rparr>),
      get_print = (\<lambda>l dt nm pf lh. Inr (''<html>'' @ str_name nm)),
      get_pdf = (\<lambda>l page. Inr (''%PDF '' @ page)),
      get_installed_apps = [''frappe'', ''pdf_on_submit''],
      import_attach_xml_to_pdf = Inl (Exception ''No module named eu_einvoice''),
      attach_xml_to_pdf = (\<lambda>nm p. Inr p),
      format_autoname = (\<lambda>a d. Inr (str_name (name d))),
      file_save = (\<lambda>f. Inr ()),
      translate = (\<lambda>l m. m),
      print_language = (\<lambda>lng cur. case lng of None \<Rightarrow> cur | Some l \<Rightarrow> if l = [] then cur else l)\<rparr>"

text \<open>The same host with a print format that is not one of the print-format builder.\<close>

definition legacy_host :: host where
  "legacy_host = demo_host\<lparr>print_format_builder_beta := (\<lambda>pf. False)\<rparr>"

text \<open>That host with a print format whose template fails in \<^verbatim>\<open>get_print\<close>.\<close>

definition legacy_failing_host :: host where
  "legacy_failing_host =
     legacy_host\<lparr>get_print := (\<lambda>l dt nm pf lh. Inl (Exception ''template error''))\<rparr>"

text \<open>That host with a converter that fails in \<^verbatim>\<open>get_pdf\<close>.\<close>

definition legacy_pdf_failing_host :: host where
  "legacy_pdf_failing_host =
     legacy_host\<lparr>get_pdf := (\<lambda>l page. Inl (Exception ''wkhtmltopdf failed''))\<rparr>"

text \<open>The demo host with a renderer that raises a \<^verbatim>\<open>TypeError\<close>, and with one that returns \<^verbatim>\<open>None\<close>.\<close>

definition type_error_host :: host where
  "type_error_host = demo_host\<lparr>render_pdf := (\<lambda>l pf d lh. Inl (TypeError ''unsupported operand''))\<rparr>"

definition none_host :: host where
  "none_host = demo_host\<lparr>render_pdf := (\<lambda>l pf d lh. Inr None)\<rparr>"

text \<open>The demo host with a file storage that refuses every File.\<close>

definition full_disk_host :: host where
  "full_disk_host = demo_host\<lparr>file_save := (\<lambda>f. Inl (Exception ''No space left on device''))\<rparr>"

definition demo_state :: state where
  "demo_state = \<lparr>files = [], folders = [''Home''], cur_lang = ''en'', calls = []\<rparr>"

section \<open>Basic facts\<close>

lemma call_simps [simp]:
  "files (call c s) = files s"
  "folders (call c s) = folders s"
  "cur_lang (call c s) = cur_lang s"
  "calls (call c s) = calls s @ [c]"
  by (simp_all add: call_def)

lemma steps_simps [simp]:
  "steps [] = []"
  "steps (c # cs) = step_of c @ steps cs"
  "steps (xs @ ys) = steps xs @ steps ys"
  by (simp_all add: steps_def)

lemma published_simps [simp]:
  "published [] = []"
  "published (c # cs) = (if is_publish c then c # published cs else published cs)"
  "published (xs @ ys) = published xs @ published ys"
  by (simp_all add: published_def)

lemma log_errors_simps [simp]:
  "log_errors [] = []"
  "log_errors (c # cs) = (if is_log_error c then c # log_errors cs else log_errors cs)"
  "log_errors (xs @ ys) = log_errors xs @ log_errors ys"
  by (simp_all add: log_errors_def)

lemma new_calls_append [simp]: "calls s' = calls s @ cs \<Longrightarrow> new_calls s s' = cs"
  by (simp add: new_calls_def)

lemma new_files_append [simp]: "files s' = files s @ fs \<Longrightarrow> new_files s s' = fs"
  by (simp add: new_files_def)

subsection \<open>\<^verbatim>\<open>publish_progress\<close> and \<^verbatim>\<open>create_folder\<close>\<close>

lemma publish_progress_simps [simp]:
  "files (publish_progress h dt nm p s) = files s"
  "cur_lang (publish_progress h dt nm p s) = cur_lang s"
  "calls (publish_progress h dt nm p s) =
     calls s @ [Publish_realtime ''progress''
                  \<lparr>percent = p, title = translate h (cur_lang s) ''Creating PDF ...'',
                   description = None\<rparr> dt nm]"
  by (simp_all add: publish_progress_def)

lemma create_folder_simps [simp]:
  "files (snd (create_folder fld parent s)) = files s"
  "cur_lang (snd (create_folder fld parent s)) = cur_lang s"
  "fst (create_folder fld parent s) = join_path parent fld"
  by (simp_all add: create_folder_def create_new_folder_def Let_def)

lemma calls_create_folder:
  "calls (snd (create_folder fld parent s)) =
     calls s @ Db_exists ''File'' (join_path parent fld) #
       (if db_exists_file (join_path parent fld) s then [] else [Create_new_folder fld parent])"
  by (simp add: create_folder_def create_new_folder_def db_exists_file_def Let_def)

subsection \<open>\<^verbatim>\<open>save_and_attach\<close>\<close>

lemma set_name_from_naming_options_simps [simp]:
  "files (snd (set_name_from_naming_options h a d s)) = files s"
  "cur_lang (snd (set_name_from_naming_options h a d s)) = cur_lang s"
  "fst (set_name_from_naming_options h a d s) =
     (if startswith (lower a) ''format:''
      then (case format_autoname h a d of Inl e \<Rightarrow> Inl e | Inr n \<Rightarrow> Inr (Name_str n))
      else Inr (name d))"
  "calls (snd (set_name_from_naming_options h a d s)) =
     calls s @ (if startswith (lower a) ''format:'' then [Format_autoname a d] else [])"
  by (simp_all add: set_name_from_naming_options_def Let_def split: sum.splits)

lemma save_and_attach_file_name_simps [simp]:
  "files (snd (save_and_attach_file_name h to_doctype to_name an s)) = files s"
  "cur_lang (snd (save_and_attach_file_name h to_doctype to_name an s)) = cur_lang s"
  by (simp_all add: save_and_attach_file_name_def set_name_from_naming_options_def Let_def
      split: option.splits sum.splits prod.splits)

lemma fst_save_and_attach_file_name:
  "fst (save_and_attach_file_name h to_doctype to_name an s) =
     (case chosen_name h to_doctype to_name an of
        Inl e \<Rightarrow> Inl e
      | Inr n \<Rightarrow>
          (case name_replace CHR ''/'' CHR ''-'' n of
             Inl e \<Rightarrow> Inl e
           | Inr b \<Rightarrow> Inr (b @ ''.pdf'')))"
  by (simp add: save_and_attach_file_name_def set_name_from_naming_options_def chosen_name_def
      Let_def split: option.splits sum.splits prod.splits)

lemma calls_save_and_attach_file_name:
  "\<exists>cs. calls (snd (save_and_attach_file_name h to_doctype to_name an s)) = calls s @ cs
      \<and> steps cs = [] \<and> published cs = [] \<and> log_errors cs = []"
  by (simp add: save_and_attach_file_name_def set_name_from_naming_options_def Let_def
      split: option.splits sum.splits prod.splits)

lemma save_and_attach_unfold:
  "save_and_attach h cnt to_doctype to_name fld an s =
     (let N = save_and_attach_file_name h to_doctype to_name an s in
      case fst N of
        Inl e \<Rightarrow> (Inl e, snd N)
      | Inr fname \<Rightarrow>
          (let f = \<lparr>file_name = fname, content = cnt, folder = fld, is_private = 0,
                    attached_to_doctype = to_doctype, attached_to_name = to_name\<rparr>;
               s3 = call (File_save f)
                      (call (Log (''Saving PDF as '' @ fname @ '' in folder '' @ str fld)) (snd N))
           in case file_save h f of
                Inl e \<Rightarrow> (Inl e, s3)
              | Inr u \<Rightarrow>
                  (Inr (),
                   call (Log (''File saved: '' @ fname @ '', Private: 0, Folder: '' @ str fld))
                     (s3\<lparr>files := files s3 @ [f]\<rparr>))))"
  by (simp add: save_and_attach_def Let_def split: prod.splits sum.splits)

lemma fst_save_and_attach:
  "fst (save_and_attach h cnt to_doctype to_name fld an s) =
     (case saved_file h cnt to_doctype to_name fld an of Inl e \<Rightarrow> Inl e | Inr f \<Rightarrow> Inr ())"
  by (simp add: save_and_attach_unfold fst_save_and_attach_file_name saved_file_def Let_def
      split: sum.splits)

lemma files_save_and_attach:
  "files (snd (save_and_attach h cnt to_doctype to_name fld an s)) =
     files s @ (case saved_file h cnt to_doctype to_name fld an of Inl e \<Rightarrow> [] | Inr f \<Rightarrow> [f])"
  by (simp add: save_and_attach_unfold fst_save_and_attach_file_name saved_file_def Let_def
      split: sum.splits)

lemma cur_lang_save_and_attach [simp]:
  "cur_lang (snd (save_and_attach h cnt to_doctype to_name fld an s)) = cur_lang s"
  by (simp add: save_and_attach_unfold Let_def split: sum.splits)

lemma calls_save_and_attach:
  "\<exists>cs. calls (snd (save_and_attach h cnt to_doctype to_name fld an s)) = calls s @ cs
      \<and> published cs = [] \<and> log_errors cs = []
      \<and> (case fst (save_and_attach h cnt to_doctype to_name fld an s) of
            Inl e \<Rightarrow> True
          | Inr u \<Rightarrow> steps cs = [Save_file])"
proof -
  let ?N = "save_and_attach_file_name h to_doctype to_name an s"
  obtain cs where cs: "calls (snd ?N) = calls s @ cs" "steps cs = []" "published cs = []"
      "log_errors cs = []"
    using calls_save_and_attach_file_name by blast
  show ?thesis
  proof (cases "fst ?N")
    case (Inl e)
    with cs show ?thesis by (simp add: save_and_attach_unfold)
  next
    case (Inr fname)
    let ?f = "\<lparr>file_name = fname, content = cnt, folder = fld, is_private = 0,
               attached_to_doctype = to_doctype, attached_to_name = to_name\<rparr>"
    show ?thesis
    proof (cases "file_save h ?f")
      case (Inl e)
      with Inr cs show ?thesis by (simp add: save_and_attach_unfold Let_def)
    next
      case (Inr u)
      with \<open>fst ?N = Inr fname\<close> cs show ?thesis
        by (simp add: save_and_attach_unfold Let_def)
    qed
  qed
qed

lemma saved_file_fields:
  assumes "saved_file h cnt to_doctype to_name fld an = Inr f"
  shows "content f = cnt" "folder f = fld" "is_private f = 0"
    "attached_to_doctype f = to_doctype" "attached_to_name f = to_name"
    "\<exists>n. chosen_name h to_doctype to_name an = Inr (Name_str n)
        \<and> file_name f = replace CHR ''/'' CHR ''-'' n @ ''.pdf''"
proof -
  from assms obtain n b where n: "chosen_name h to_doctype to_name an = Inr n"
      "name_replace CHR ''/'' CHR ''-'' n = Inr b"
      "f = \<lparr>file_name = b @ ''.pdf'', content = cnt, folder = fld, is_private = 0,
            attached_to_doctype = to_doctype, attached_to_name = to_name\<rparr>"
    by (auto simp: saved_file_def Let_def split: sum.splits)
  from n(3) show "content f = cnt" "folder f = fld" "is_private f = 0"
    "attached_to_doctype f = to_doctype" "attached_to_name f = to_name"
    by simp_all
  from n(2) obtain m where "n = Name_str m" "b = replace CHR ''/'' CHR ''-'' m"
    by (cases n) auto
  with n(1,3) show "\<exists>n. chosen_name h to_doctype to_name an = Inr (Name_str n)
      \<and> file_name f = replace CHR ''/'' CHR ''-'' n @ ''.pdf''"
    by simp
qed

subsection \<open>\<^verbatim>\<open>get_pdf_data\<close>\<close>

lemma get_pdf_data_simps [simp]:
  "files (snd (get_pdf_data h dt nm pf lh s)) = files s"
  "cur_lang (snd (get_pdf_data h dt nm pf lh s)) = cur_lang s"
  by (simp_all add: get_pdf_data_def Let_def split: sum.splits)

lemma fst_get_pdf_data:
  "fst (get_pdf_data h dt nm pf lh s) =
     (case get_print h (cur_lang s) dt nm pf lh of
        Inl e \<Rightarrow> Inl e
      | Inr page \<Rightarrow> get_pdf h (cur_lang s) page)"
  by (simp add: get_pdf_data_def Let_def split: sum.splits)

lemma calls_get_pdf_data:
  "\<exists>cs. calls (snd (get_pdf_data h dt nm pf lh s)) = calls s @ cs \<and> published cs = []
      \<and> log_errors cs = []
      \<and> (case fst (get_pdf_data h dt nm pf lh s) of
            Inl e \<Rightarrow> True
          | Inr p \<Rightarrow> steps cs = [Render_PDF, Render_PDF])"
  by (simp add: get_pdf_data_def Let_def split: sum.splits)

subsection \<open>The blocks of \<^verbatim>\<open>execute\<close>\<close>

lemma execute_render_simps [simp]:
  "files (snd (execute_render h dt nm lng pf lh s)) = files s"
  "cur_lang (snd (execute_render h dt nm lng pf lh s)) = cur_lang s"
  by (simp_all add: execute_render_def Let_def split_beta
      split: sum.splits exc.splits option.splits prod.splits)

lemma fst_execute_render:
  "fst (execute_render h dt nm lng pf lh s) =
     (let l = print_language h lng (cur_lang s) in
      if print_format_builder_beta h pf then
        (case get_doc h dt nm of
           Inl e \<Rightarrow> Inl (Raised e)
         | Inr d \<Rightarrow>
             (case render_pdf h l pf d lh of
                Inl (TypeError e) \<Rightarrow> Inl Returned
              | Inl e \<Rightarrow> Inl (Raised e)
              | Inr None \<Rightarrow> Inl Returned
              | Inr (Some pdf_data) \<Rightarrow> Inr pdf_data))
      else
        (case get_print h l dt nm pf lh of
           Inl e \<Rightarrow> Inl (Raised e)
         | Inr page \<Rightarrow>
             (case get_pdf h l page of Inl e \<Rightarrow> Inl (Raised e) | Inr p \<Rightarrow> Inr p)))"
  by (simp add: execute_render_def Let_def split_beta fst_get_pdf_data
      split: sum.splits exc.splits option.splits prod.splits)

lemma fst_execute_render_cur_lang:
  "cur_lang s = cur_lang s' \<Longrightarrow>
     fst (execute_render h dt nm lng pf lh s) = fst (execute_render h dt nm lng pf lh s')"
  by (simp add: fst_execute_render)

lemma fst_execute_render_not_Completed:
  "fst (execute_render h dt nm lng pf lh s) \<noteq> Inl Completed"
  by (auto simp: fst_execute_render Let_def
      split: if_splits sum.splits exc.splits option.splits)

lemma execute_render_legacy:
  assumes "\<not> print_format_builder_beta h pf"
  shows "execute_render h dt nm lng pf lh s =
      (case fst (get_pdf_data h dt nm pf lh
                  (call (Db_get_value ''Print Format'' pf ''print_format_builder_beta'')
                     (s\<lparr>cur_lang := print_language h lng (cur_lang s)\<rparr>))) of
         Inl e \<Rightarrow> Inl (Raised e) | Inr p \<Rightarrow> Inr p,
       (snd (get_pdf_data h dt nm pf lh
               (call (Db_get_value ''Print Format'' pf ''print_format_builder_beta'')
                  (s\<lparr>cur_lang := print_language h lng (cur_lang s)\<rparr>))))
         \<lparr>cur_lang := cur_lang s\<rparr>)"
  using assms
  by (simp add: execute_render_def Let_def split_beta split: sum.splits prod.splits)

lemma calls_execute_render:
  "\<exists>cs. calls (snd (execute_render h dt nm lng pf lh s)) = calls s @ cs \<and> published cs = []
      \<and> (\<not> print_format_builder_beta h pf \<longrightarrow> log_errors cs = [])
      \<and> (case fst (execute_render h dt nm lng pf lh s) of
            Inl out \<Rightarrow> True
          | Inr p \<Rightarrow> \<exists>m. steps cs = replicate (Suc m) Render_PDF)"
proof (cases "print_format_builder_beta h pf")
  case True
  then show ?thesis
    by (simp add: execute_render_def Let_def split: sum.splits exc.splits option.splits)
next
  case False
  let ?g = "Db_get_value ''Print Format'' pf ''print_format_builder_beta''"
  let ?s2 = "call ?g (s\<lparr>cur_lang := print_language h lng (cur_lang s)\<rparr>)"
  obtain cs where cs: "calls (snd (get_pdf_data h dt nm pf lh ?s2)) = calls ?s2 @ cs"
      "published cs = []" "log_errors cs = []"
      "case fst (get_pdf_data h dt nm pf lh ?s2) of
         Inl e \<Rightarrow> True | Inr p \<Rightarrow> steps cs = [Render_PDF, Render_PDF]"
    using calls_get_pdf_data by blast
  note r = execute_render_legacy [OF False]
  show ?thesis
  proof (intro exI conjI impI)
    show "calls (snd (execute_render h dt nm lng pf lh s)) = calls s @ (?g # cs)"
      using cs(1) by (simp add: r)
    show "published (?g # cs) = []"
      using cs(2) by simp
    show "log_errors (?g # cs) = []"
      using cs(3) by simp
    show "case fst (execute_render h dt nm lng pf lh s) of
        Inl out \<Rightarrow> True
      | Inr p \<Rightarrow> \<exists>m. steps (?g # cs) = replicate (Suc m) Render_PDF"
    proof (cases "fst (get_pdf_data h dt nm pf lh ?s2)")
      case (Inl e)
      then show ?thesis by (simp add: r)
    next
      case (Inr p)
      with cs(4) have "steps cs = [Render_PDF, Render_PDF]" by simp
      then have "steps (?g # cs) = replicate (Suc (Suc 0)) Render_PDF" by simp
      then have "\<exists>m. steps (?g # cs) = replicate (Suc m) Render_PDF" by (rule exI)
      with Inr show ?thesis by (simp add: r)
    qed
  qed
qed

lemma last_calls_execute_render_TypeError:
  assumes "print_format_builder_beta h pf" and "get_doc h dt nm = Inr d"
    and "render_pdf h (print_language h lng (cur_lang s)) pf d lh = Inl (TypeError m)"
  shows "last (calls (snd (execute_render h dt nm lng pf lh s)))
           = Log_error (''Error generating PDF: '' @ m)"
  using assms by (simp add: execute_render_def Let_def)

lemma last_calls_execute_render_None:
  assumes "print_format_builder_beta h pf" and "get_doc h dt nm = Inr d"
    and "render_pdf h (print_language h lng (cur_lang s)) pf d lh = Inr None"
  shows "last (calls (snd (execute_render h dt nm lng pf lh s)))
           = Log_error ''PDF data is None. Skipping attachment.''"
  using assms by (simp add: execute_render_def Let_def)

lemma execute_einvoice_failed_simps [simp]:
  "files (execute_einvoice_failed h nm show_progress s) = files s"
  "cur_lang (execute_einvoice_failed h nm show_progress s) = cur_lang s"
  by (simp_all add: execute_einvoice_failed_def Let_def)

lemma calls_execute_einvoice_failed:
  "\<exists>cs. calls (execute_einvoice_failed h nm show_progress s) = calls s @ cs
      \<and> published cs = [] \<and> steps cs = []"
  by (simp add: execute_einvoice_failed_def Let_def)

lemma execute_einvoice_simps [simp]:
  "files (snd (execute_einvoice h dt nm show_progress p s)) = files s"
  "cur_lang (snd (execute_einvoice h dt nm show_progress p s)) = cur_lang s"
  by (simp_all add: execute_einvoice_def Let_def split: sum.splits)

lemma fst_execute_einvoice:
  "fst (execute_einvoice h dt nm show_progress p s) =
     (if dt = ''Sales Invoice'' \<and> ''eu_einvoice'' \<in> set (get_installed_apps h)
      then (case import_attach_xml_to_pdf h of
              Inl e \<Rightarrow> p
            | Inr u \<Rightarrow> (case attach_xml_to_pdf h nm p of Inl e \<Rightarrow> p | Inr p' \<Rightarrow> p'))
      else p)"
  by (simp add: execute_einvoice_def Let_def split: sum.splits)

lemma calls_execute_einvoice:
  "\<exists>cs. calls (snd (execute_einvoice h dt nm show_progress p s)) = calls s @ cs
      \<and> published cs = [] \<and> steps cs = []"
  by (simp add: execute_einvoice_def execute_einvoice_failed_def Let_def split: sum.splits)

lemma replicate_Suc_exI:
  "xs = replicate (Suc k) a \<Longrightarrow> \<exists>m. xs = replicate (Suc m) a"
  by (rule exI)

lemma calls_create_folder_steps:
  "\<exists>cs k. calls (snd (create_folder fld parent s)) = calls s @ cs
      \<and> steps cs = replicate (Suc k) Create_folder_path \<and> published cs = []
      \<and> log_errors cs = []"
proof (cases "db_exists_file (join_path parent fld) s")
  case True
  then have "calls (snd (create_folder fld parent s)) =
      calls s @ [Db_exists ''File'' (join_path parent fld)]"
    by (simp add: calls_create_folder)
  moreover have "steps [Db_exists ''File'' (join_path parent fld)]
      = replicate (Suc 0) Create_folder_path" by simp
  moreover have "published [Db_exists ''File'' (join_path parent fld)] = []" by simp
  moreover have "log_errors [Db_exists ''File'' (join_path parent fld)] = []" by simp
  ultimately show ?thesis by blast
next
  case False
  then have "calls (snd (create_folder fld parent s)) =
      calls s @ [Db_exists ''File'' (join_path parent fld), Create_new_folder fld parent]"
    by (simp add: calls_create_folder)
  moreover have "steps [Db_exists ''File'' (join_path parent fld), Create_new_folder fld parent]
      = replicate (Suc (Suc 0)) Create_folder_path" by simp
  moreover have
    "published [Db_exists ''File'' (join_path parent fld), Create_new_folder fld parent] = []"
    by simp
  moreover have
    "log_errors [Db_exists ''File'' (join_path parent fld), Create_new_folder fld parent] = []"
    by simp
  ultimately show ?thesis by blast
qed

lemma execute_folders_simps [simp]:
  "files (snd (execute_folders h dt nm ttl show_progress s)) = files s"
  "cur_lang (snd (execute_folders h dt nm ttl show_progress s)) = cur_lang s"
  by (simp_all add: execute_folders_def Let_def split_beta split: option.splits)

lemma calls_execute_folders:
  "\<exists>cs k. calls (snd (execute_folders h dt nm ttl show_progress s)) = calls s @ cs
      \<and> steps cs = (if show_progress then [Publish_progress 0] else [])
                    @ replicate (Suc k) Create_folder_path
                    @ (if show_progress then [Publish_progress 33] else [])
      \<and> published cs = (if show_progress then map (progress_event h s dt nm) [0, 33] else [])
      \<and> log_errors cs = []"
proof -
  let ?s1 = "if show_progress then publish_progress h dt nm 0 s else s"
  let ?p0 = "if show_progress then [progress_event h s dt nm 0] else []"
  let ?p33 = "if show_progress then [progress_event h s dt nm 33] else []"
  have c1: "calls ?s1 = calls s @ ?p0" by (simp add: progress_event_def)
  obtain cs1 k1 where f1: "calls (snd (create_folder dt ''Home'' ?s1)) = calls ?s1 @ cs1"
      "steps cs1 = replicate (Suc k1) Create_folder_path" "published cs1 = []"
      "log_errors cs1 = []"
    using calls_create_folder_steps by blast
  let ?s2 = "snd (create_folder dt ''Home'' ?s1)"
  obtain cs2 k2 where f2:
      "calls (snd (create_folder (str ttl) (join_path ''Home'' dt) ?s2)) = calls ?s2 @ cs2"
      "steps cs2 = replicate (Suc k2) Create_folder_path" "published cs2 = []"
      "log_errors cs2 = []"
    using calls_create_folder_steps by blast
  show ?thesis
  proof (cases "truthy ttl")
    case True
    then have "calls (snd (execute_folders h dt nm ttl show_progress s))
        = calls s @ (?p0 @ (cs1 @ cs2) @ ?p33)"
      using c1 f1(1) f2(1)
      by (cases show_progress)
         (simp_all add: execute_folders_def Let_def split_beta truthy_def str_def
          progress_event_def split: option.splits)
    moreover have "steps (cs1 @ cs2) = replicate (Suc (k1 + Suc k2)) Create_folder_path"
      using f1(2) f2(2) by (simp add: replicate_add replicate_app_Cons_same)
    then have "steps (?p0 @ (cs1 @ cs2) @ ?p33)
        = (if show_progress then [Publish_progress 0] else [])
          @ replicate (Suc (k1 + Suc k2)) Create_folder_path
          @ (if show_progress then [Publish_progress 33] else [])"
      by (simp add: progress_event_def del: replicate_Suc)
    moreover have "published (?p0 @ (cs1 @ cs2) @ ?p33)
        = (if show_progress then map (progress_event h s dt nm) [0, 33] else [])"
      using f1(3) f2(3) by (simp add: progress_event_def)
    moreover have "log_errors (?p0 @ (cs1 @ cs2) @ ?p33) = []"
      using f1(4) f2(4) by (simp add: progress_event_def)
    ultimately show ?thesis by blast
  next
    case False
    then have "calls (snd (execute_folders h dt nm ttl show_progress s))
        = calls s @ (?p0 @ cs1 @ ?p33)"
      using c1 f1(1)
      by (cases show_progress)
         (simp_all add: execute_folders_def Let_def split_beta truthy_def
          progress_event_def split: option.splits)
    moreover have "steps (?p0 @ cs1 @ ?p33)
        = (if show_progress then [Publish_progress 0] else [])
          @ replicate (Suc k1) Create_folder_path
          @ (if show_progress then [Publish_progress 33] else [])"
      using f1(2) by (simp add: progress_event_def del: replicate_Suc)
    moreover have "published (?p0 @ cs1 @ ?p33)
        = (if show_progress then map (progress_event h s dt nm) [0, 33] else [])"
      using f1(3) by (simp add: progress_event_def)
    moreover have "log_errors (?p0 @ cs1 @ ?p33) = []"
      using f1(4) by (simp add: progress_event_def)
    ultimately show ?thesis by blast
  qed
qed

lemma execute_save_True:
  "execute_save h dt nm True an tf p s =
     (let A = save_and_attach h p dt nm (Some tf) an (publish_progress h dt nm 66 s) in
      case fst A of
        Inl e \<Rightarrow> (Raised e, snd A)
      | Inr u \<Rightarrow>
          (Completed,
           publish_progress h dt nm 100
             (call (Log (''PDF saved and attached successfully for '' @ str_name nm)) (snd A))))"
  by (simp add: execute_save_def Let_def split: prod.splits sum.splits)

lemma execute_save_False:
  "execute_save h dt nm False an tf p s =
     (let A = save_and_attach h p dt nm (Some tf) an s in
      case fst A of
        Inl e \<Rightarrow> (Raised e, snd A)
      | Inr u \<Rightarrow>
          (Completed,
           call (Log (''PDF saved and attached successfully for '' @ str_name nm)) (snd A)))"
  by (simp add: execute_save_def Let_def split: prod.splits sum.splits)

lemma execute_save_simps [simp]:
  "cur_lang (snd (execute_save h dt nm show_progress an tf p s)) = cur_lang s"
  "fst (execute_save h dt nm show_progress an tf p s) =
     (case saved_file h p dt nm (Some tf) an of Inl e \<Rightarrow> Raised e | Inr f \<Rightarrow> Completed)"
  "files (snd (execute_save h dt nm show_progress an tf p s)) =
     files s @ (case saved_file h p dt nm (Some tf) an of Inl e \<Rightarrow> [] | Inr f \<Rightarrow> [f])"
  by (cases show_progress;
      simp add: execute_save_True execute_save_False Let_def fst_save_and_attach
        files_save_and_attach split: sum.splits)+

lemma calls_execute_save:
  "\<exists>cs. calls (snd (execute_save h dt nm show_progress an tf p s)) = calls s @ cs
      \<and> (\<not> show_progress \<longrightarrow> published cs = [])
      \<and> (fst (execute_save h dt nm show_progress an tf p s) = Completed \<longrightarrow>
           steps cs = (if show_progress then [Publish_progress 66] else []) @ [Save_file]
                      @ (if show_progress then [Publish_progress 100] else [])
           \<and> published cs =
               (if show_progress then map (progress_event h s dt nm) [66, 100] else []))"
proof (cases show_progress)
  case True
  let ?l = "Log (''PDF saved and attached successfully for '' @ str_name nm)"
  let ?s1 = "publish_progress h dt nm 66 s"
  let ?A = "save_and_attach h p dt nm (Some tf) an ?s1"
  obtain cs where sv: "calls (snd ?A) = calls ?s1 @ cs" "published cs = []"
      "case fst ?A of Inl e \<Rightarrow> True | Inr u \<Rightarrow> steps cs = [Save_file]"
    using calls_save_and_attach by blast
  show ?thesis
  proof (cases "fst ?A")
    case (Inl e)
    then have "calls (snd (execute_save h dt nm True an tf p s))
        = calls s @ (progress_event h s dt nm 66 # cs)"
      "fst (execute_save h dt nm True an tf p s) \<noteq> Completed"
      using sv(1) by (simp_all add: execute_save_True Let_def progress_event_def)
    with True show ?thesis by auto
  next
    case (Inr u)
    then have "calls (snd (execute_save h dt nm True an tf p s))
        = calls s @ (progress_event h s dt nm 66 # cs @ [?l, progress_event h s dt nm 100])"
      using sv(1) by (simp add: execute_save_True Let_def progress_event_def)
    moreover have "steps (progress_event h s dt nm 66 # cs @ [?l, progress_event h s dt nm 100])
        = [Publish_progress 66, Save_file, Publish_progress 100]"
      using sv(3) Inr by (simp add: progress_event_def)
    moreover have
      "published (progress_event h s dt nm 66 # cs @ [?l, progress_event h s dt nm 100])
        = [progress_event h s dt nm 66, progress_event h s dt nm 100]"
      using sv(2) by (simp add: progress_event_def)
    ultimately show ?thesis using True by auto
  qed
next
  case False
  let ?l = "Log (''PDF saved and attached successfully for '' @ str_name nm)"
  let ?A = "save_and_attach h p dt nm (Some tf) an s"
  obtain cs where sv: "calls (snd ?A) = calls s @ cs" "published cs = []"
      "case fst ?A of Inl e \<Rightarrow> True | Inr u \<Rightarrow> steps cs = [Save_file]"
    using calls_save_and_attach by blast
  show ?thesis
  proof (cases "fst ?A")
    case (Inl e)
    then have "calls (snd (execute_save h dt nm False an tf p s)) = calls s @ cs"
      "fst (execute_save h dt nm False an tf p s) \<noteq> Completed"
      using sv(1) by (simp_all add: execute_save_False Let_def)
    with False sv(2) show ?thesis by auto
  next
    case (Inr u)
    then have "calls (snd (execute_save h dt nm False an tf p s)) = calls s @ (cs @ [?l])"
      using sv(1) by (simp add: execute_save_False Let_def)
    moreover have "steps (cs @ [?l]) = [Save_file]"
      using sv(3) Inr by simp
    moreover have "published (cs @ [?l]) = []"
      using sv(2) by simp
    ultimately show ?thesis using False by auto
  qed
qed

subsection \<open>\<^verbatim>\<open>execute\<close>\<close>

lemma progress_event_cur_lang:
  "cur_lang s = cur_lang s' \<Longrightarrow> progress_event h s dt nm = progress_event h s' dt nm"
  by (simp add: progress_event_def fun_eq_iff)

lemma fst_execute_folders:
  "fst (execute_folders h dt nm ttl show_progress s) =
     (case ttl of
        None \<Rightarrow> join_path ''Home'' dt
      | Some t \<Rightarrow> if t \<noteq> [] then join_path (join_path ''Home'' dt) t else join_path ''Home'' dt)"
  by (simp add: execute_folders_def Let_def split_beta join_path_def split: option.splits)

lemma execute_unfold:
  "execute h dt nm ttl lng show_progress an pf lh s =
     (let F = execute_folders h dt nm ttl show_progress s;
          R = execute_render h dt nm lng pf lh (snd F)
      in case fst R of
           Inl out \<Rightarrow> (out, snd R)
         | Inr p \<Rightarrow>
             (let E = execute_einvoice h dt nm show_progress p (snd R)
              in execute_save h dt nm show_progress an (fst F) (fst E) (snd E)))"
  by (simp add: execute_def Let_def split_beta split: prod.splits sum.splits)

lemma fst_execute:
  "fst (execute h dt nm ttl lng show_progress an pf lh s) =
     (case fst (execute_render h dt nm lng pf lh s) of
        Inl out \<Rightarrow> out
      | Inr p \<Rightarrow>
          (case saved_file h (fst (execute_einvoice h dt nm show_progress p s)) dt nm
                  (Some (fst (execute_folders h dt nm ttl show_progress s))) an of
             Inl e \<Rightarrow> Raised e
           | Inr f \<Rightarrow> Completed))"
proof -
  have "fst (execute_render h dt nm lng pf lh (snd (execute_folders h dt nm ttl show_progress s)))
      = fst (execute_render h dt nm lng pf lh s)"
    by (rule fst_execute_render_cur_lang) simp
  then show ?thesis
    by (simp add: execute_unfold Let_def fst_execute_einvoice split: sum.splits)
qed

lemma files_execute:
  "files (snd (execute h dt nm ttl lng show_progress an pf lh s)) =
     (case fst (execute_render h dt nm lng pf lh s) of
        Inl out \<Rightarrow> files s
      | Inr p \<Rightarrow>
          files s @
            (case saved_file h (fst (execute_einvoice h dt nm show_progress p s)) dt nm
                    (Some (fst (execute_folders h dt nm ttl show_progress s))) an of
               Inl e \<Rightarrow> []
             | Inr f \<Rightarrow> [f]))"
proof -
  have "fst (execute_render h dt nm lng pf lh (snd (execute_folders h dt nm ttl show_progress s)))
      = fst (execute_render h dt nm lng pf lh s)"
    by (rule fst_execute_render_cur_lang) simp
  then show ?thesis
    by (simp add: execute_unfold Let_def fst_execute_einvoice split: sum.splits)
qed

lemma calls_execute:
  "\<exists>cs k m. calls (snd (execute h dt nm ttl lng show_progress an pf lh s)) = calls s @ cs
      \<and> (\<not> show_progress \<longrightarrow> published cs = [])
      \<and> (fst (execute h dt nm ttl lng show_progress an pf lh s) = Completed \<longrightarrow>
           steps cs = (if show_progress then [Publish_progress 0] else [])
                      @ replicate (Suc k) Create_folder_path
                      @ (if show_progress then [Publish_progress 33] else [])
                      @ replicate (Suc m) Render_PDF
                      @ (if show_progress then [Publish_progress 66] else [])
                      @ [Save_file]
                      @ (if show_progress then [Publish_progress 100] else [])
           \<and> published cs =
               (if show_progress then map (progress_event h s dt nm) [0, 33, 66, 100] else []))"
proof -
  let ?F = "execute_folders h dt nm ttl show_progress s"
  let ?R = "execute_render h dt nm lng pf lh (snd ?F)"
  obtain cs1 k where c1: "calls (snd ?F) = calls s @ cs1"
      "steps cs1 = (if show_progress then [Publish_progress 0] else [])
                    @ replicate (Suc k) Create_folder_path
                    @ (if show_progress then [Publish_progress 33] else [])"
      "published cs1 = (if show_progress then map (progress_event h s dt nm) [0, 33] else [])"
    using calls_execute_folders by blast
  obtain cs2 where c2: "calls (snd ?R) = calls (snd ?F) @ cs2" "published cs2 = []"
      "case fst ?R of Inl out \<Rightarrow> True | Inr p \<Rightarrow> \<exists>m. steps cs2 = replicate (Suc m) Render_PDF"
    using calls_execute_render by blast
  show ?thesis
  proof (cases "fst ?R")
    case (Inl out)
    then have "calls (snd (execute h dt nm ttl lng show_progress an pf lh s))
        = calls s @ (cs1 @ cs2)"
      using c1(1) c2(1) by (simp add: execute_unfold Let_def)
    moreover have "\<not> show_progress \<longrightarrow> published (cs1 @ cs2) = []"
      using c1(3) c2(2) by simp
    moreover have "fst (execute h dt nm ttl lng show_progress an pf lh s) = out"
      using Inl by (simp add: execute_unfold Let_def)
    moreover have "out \<noteq> Completed"
      using Inl fst_execute_render_not_Completed by auto
    ultimately show ?thesis by blast
  next
    case (Inr p)
    let ?E = "execute_einvoice h dt nm show_progress p (snd ?R)"
    let ?S = "execute_save h dt nm show_progress an (fst ?F) (fst ?E) (snd ?E)"
    obtain m where m: "steps cs2 = replicate (Suc m) Render_PDF"
      using c2(3) Inr by auto
    obtain cs3 where c3: "calls (snd ?E) = calls (snd ?R) @ cs3"
        "published cs3 = []" "steps cs3 = []"
      using calls_execute_einvoice by blast
    obtain cs4 where c4: "calls (snd ?S) = calls (snd ?E) @ cs4"
        "\<not> show_progress \<longrightarrow> published cs4 = []"
        "fst ?S = Completed \<longrightarrow>
           steps cs4 = (if show_progress then [Publish_progress 66] else []) @ [Save_file]
                      @ (if show_progress then [Publish_progress 100] else [])
           \<and> published cs4 =
               (if show_progress then map (progress_event h (snd ?E) dt nm) [66, 100] else [])"
      using calls_execute_save by blast
    have pe: "progress_event h (snd ?E) dt nm = progress_event h s dt nm"
      by (rule progress_event_cur_lang) simp
    have e: "execute h dt nm ttl lng show_progress an pf lh s = ?S"
      using Inr by (simp add: execute_unfold Let_def)
    have "calls (snd (execute h dt nm ttl lng show_progress an pf lh s))
        = calls s @ (cs1 @ cs2 @ cs3 @ cs4)"
      using c1(1) c2(1) c3(1) c4(1) by (simp add: e)
    moreover have "\<not> show_progress \<longrightarrow> published (cs1 @ cs2 @ cs3 @ cs4) = []"
      using c1(3) c2(2) c3(2) c4(2) by simp
    moreover have "steps (cs1 @ cs2 @ cs3 @ cs4)
        = (if show_progress then [Publish_progress 0] else [])
          @ replicate (Suc k) Create_folder_path
          @ (if show_progress then [Publish_progress 33] else [])
          @ replicate (Suc m) Render_PDF
          @ (if show_progress then [Publish_progress 66] else [])
          @ [Save_file]
          @ (if show_progress then [Publish_progress 100] else [])"
      if "fst (execute h dt nm ttl lng show_progress an pf lh s) = Completed"
    proof -
      from that have "fst ?S = Completed" by (simp only: e)
      with c4(3) have "steps cs4
          = (if show_progress then [Publish_progress 66] else []) @ [Save_file]
            @ (if show_progress then [Publish_progress 100] else [])"
        by blast
      with c1(2) m c3(3) show ?thesis by (simp del: replicate_Suc)
    qed
    moreover have "published (cs1 @ cs2 @ cs3 @ cs4)
        = (if show_progress then map (progress_event h s dt nm) [0, 33, 66, 100] else [])"
      if "fst (execute h dt nm ttl lng show_progress an pf lh s) = Completed"
    proof -
      from that have "fst ?S = Completed" by (simp only: e)
      with c4(3) have "published cs4 =
          (if show_progress then map (progress_event h (snd ?E) dt nm) [66, 100] else [])"
        by blast
      then have "published cs4 =
          (if show_progress then map (progress_event h s dt nm) [66, 100] else [])"
        unfolding pe .
      with c1(3) c2(2) c3(2) show ?thesis by simp
    qed
    ultimately show ?thesis by blast
  qed
qed

lemma files_execute_not_Completed:
  "fst (execute h dt nm ttl lng show_progress an pf lh s) \<noteq> Completed \<Longrightarrow>
     files (snd (execute h dt nm ttl lng show_progress an pf lh s)) = files s"
  by (auto simp: fst_execute files_execute split: sum.splits)

lemma execute_returns_early:
  assumes "fst (execute_render h dt nm lng pf lh s) = Inl out"
  shows "fst (execute h dt nm ttl lng show_progress an pf lh s) = out"
    and "last (calls (snd (execute h dt nm ttl lng show_progress an pf lh s))) =
           last (calls (snd (execute_render h dt nm lng pf lh
                               (snd (execute_folders h dt nm ttl show_progress s)))))"
    and "files (snd (execute h dt nm ttl lng show_progress an pf lh s)) = files s"
proof -
  let ?F = "execute_folders h dt nm ttl show_progress s"
  have "fst (execute_render h dt nm lng pf lh (snd ?F)) = fst (execute_render h dt nm lng pf lh s)"
    by (rule fst_execute_render_cur_lang) simp
  with assms have e: "execute h dt nm ttl lng show_progress an pf lh s =
      (out, snd (execute_render h dt nm lng pf lh (snd ?F)))"
    by (simp add: execute_unfold Let_def)
  show "fst (execute h dt nm ttl lng show_progress an pf lh s) = out"
    by (simp add: e)
  show "last (calls (snd (execute h dt nm ttl lng show_progress an pf lh s))) =
      last (calls (snd (execute_render h dt nm lng pf lh (snd ?F))))"
    by (simp add: e)
  show "files (snd (execute h dt nm ttl lng show_progress an pf lh s)) = files s"
    by (simp add: e)
qed

lemma log_errors_execute_legacy:
  assumes "\<not> print_format_builder_beta h pf"
    and "fst (execute_render h dt nm lng pf lh s) = Inl out"
  shows "log_errors (new_calls s (snd (execute h dt nm ttl lng show_progress an pf lh s))) = []"
proof -
  let ?F = "execute_folders h dt nm ttl show_progress s"
  let ?R = "execute_render h dt nm lng pf lh (snd ?F)"
  have "fst ?R = fst (execute_render h dt nm lng pf lh s)"
    by (rule fst_execute_render_cur_lang) simp
  with assms(2) have e: "execute h dt nm ttl lng show_progress an pf lh s = (out, snd ?R)"
    by (simp add: execute_unfold Let_def)
  obtain cs1 k where c1: "calls (snd ?F) = calls s @ cs1" "log_errors cs1 = []"
    using calls_execute_folders by blast
  obtain cs2 where c2: "calls (snd ?R) = calls (snd ?F) @ cs2" "log_errors cs2 = []"
    using calls_execute_render assms(1) by blast
  have "calls (snd (execute h dt nm ttl lng show_progress an pf lh s)) = calls s @ (cs1 @ cs2)"
    using c1(1) c2(1) by (simp add: e)
  then have "new_calls s (snd (execute h dt nm ttl lng show_progress an pf lh s)) = cs1 @ cs2"
    by (rule new_calls_append)
  with c1(2) c2(2) show ?thesis by simp
qed

subsection \<open>\<^verbatim>\<open>attach_pdf\<close>\<close>

lemma attach_pdf_no_row:
  "settings_get (get_single h ''PDF on Submit Settings'') (doctype d) = [] \<Longrightarrow>
     attach_pdf h d s =
       (Returned, call (Log_error (''No enabled doctype found for '' @ doctype d))
                    (call (Get_single ''PDF on Submit Settings'') s))"
  by (simp add: attach_pdf_def Let_def)

lemma attach_pdf_row_Some:
  assumes "settings_get (get_single h ''PDF on Submit Settings'') (doctype d) = r # rs"
    and "render_pdf h (cur_lang s) (print_format r) d (letter_head r) = Inr (Some p)"
  shows "attach_pdf h d s =
     (let A = save_and_attach h p (doctype d) (name d)
                (case target_folder r of None \<Rightarrow> Some ''Home'' | Some v \<Rightarrow> v) (auto_name r)
                (call (Log (''PDF data generated successfully for '' @ str_name (name d)))
                  (call (Render_pdf (print_format r) d (letter_head r))
                    (call (Log (''Generating PDF for '' @ doctype d @ '' '' @ str_name (name d)
                                 @ '' with print format '' @ str (print_format r)))
                      (call (Get_single ''PDF on Submit Settings'') s))))
      in case fst A of
           Inl e \<Rightarrow> (Raised e, snd A)
         | Inr u \<Rightarrow>
             (Completed,
              call (Log (''PDF saved and attached successfully for '' @ str_name (name d)))
                (snd A)))"
  using assms by (simp add: attach_pdf_def Let_def split: prod.splits sum.splits)

lemma fst_attach_pdf_row:
  "settings_get (get_single h ''PDF on Submit Settings'') (doctype d) = r # rs \<Longrightarrow>
     fst (attach_pdf h d s) =
       (case render_pdf h (cur_lang s) (print_format r) d (letter_head r) of
          Inl e \<Rightarrow> Returned
        | Inr None \<Rightarrow> Returned
        | Inr (Some p) \<Rightarrow>
            (case saved_file h p (doctype d) (name d)
                    (case target_folder r of None \<Rightarrow> Some ''Home'' | Some v \<Rightarrow> v)
                    (auto_name r) of
               Inl e \<Rightarrow> Raised e
             | Inr f \<Rightarrow> Completed))"
proof (cases "render_pdf h (cur_lang s) (print_format r) d (letter_head r)")
  case (Inl e)
  assume "settings_get (get_single h ''PDF on Submit Settings'') (doctype d) = r # rs"
  with Inl show ?thesis
    by (simp add: attach_pdf_def Let_def split: exc.splits)
next
  case (Inr v)
  assume row: "settings_get (get_single h ''PDF on Submit Settings'') (doctype d) = r # rs"
  show ?thesis
  proof (cases v)
    case None
    with Inr row show ?thesis by (simp add: attach_pdf_def Let_def)
  next
    case (Some p)
    with Inr row show ?thesis
      by (simp add: attach_pdf_row_Some Let_def fst_save_and_attach split: sum.splits)
  qed
qed

lemma files_attach_pdf_row:
  "settings_get (get_single h ''PDF on Submit Settings'') (doctype d) = r # rs \<Longrightarrow>
     files (snd (attach_pdf h d s)) =
       (case render_pdf h (cur_lang s) (print_format r) d (letter_head r) of
          Inl e \<Rightarrow> files s
        | Inr None \<Rightarrow> files s
        | Inr (Some p) \<Rightarrow>
            files s @
              (case saved_file h p (doctype d) (name d)
                      (case target_folder r of None \<Rightarrow> Some ''Home'' | Some v \<Rightarrow> v)
                      (auto_name r) of
                 Inl e \<Rightarrow> []
               | Inr f \<Rightarrow> [f]))"
proof (cases "render_pdf h (cur_lang s) (print_format r) d (letter_head r)")
  case (Inl e)
  assume "settings_get (get_single h ''PDF on Submit Settings'') (doctype d) = r # rs"
  with Inl show ?thesis
    by (simp add: attach_pdf_def Let_def split: exc.splits)
next
  case (Inr v)
  assume row: "settings_get (get_single h ''PDF on Submit Settings'') (doctype d) = r # rs"
  show ?thesis
  proof (cases v)
    case None
    with Inr row show ?thesis by (simp add: attach_pdf_def Let_def)
  next
    case (Some p)
    with Inr row show ?thesis
      by (simp add: attach_pdf_row_Some Let_def fst_save_and_attach files_save_and_attach
          split: sum.splits)
  qed
qed

lemma last_calls_attach_pdf_raise:
  "settings_get (get_single h ''PDF on Submit Settings'') (doctype d) = r # rs \<Longrightarrow>
   render_pdf h (cur_lang s) (print_format r) d (letter_head r) = Inl e \<Longrightarrow>
     last (calls (snd (attach_pdf h d s))) =
       Log_error ((case e of TypeError m \<Rightarrow> ''Error generating PDF: ''
                   | _ \<Rightarrow> ''Unexpected error generating PDF: '') @ message e)"
  by (simp add: attach_pdf_def Let_def split: exc.splits)

lemma last_calls_attach_pdf_None:
  "settings_get (get_single h ''PDF on Submit Settings'') (doctype d) = r # rs \<Longrightarrow>
   render_pdf h (cur_lang s) (print_format r) d (letter_head r) = Inr None \<Longrightarrow>
     last (calls (snd (attach_pdf h d s))) = Log_error ''PDF data is None. Skipping attachment.''"
  by (simp add: attach_pdf_def Let_def)

lemma attach_pdf_Completed:
  assumes "fst (attach_pdf h d s) = Completed"
  shows "\<exists>r rs p.
      settings_get (get_single h ''PDF on Submit Settings'') (doctype d) = r # rs
      \<and> render_pdf h (cur_lang s) (print_format r) d (letter_head r) = Inr (Some p)"
proof (cases "settings_get (get_single h ''PDF on Submit Settings'') (doctype d)")
  case Nil
  with assms show ?thesis by (simp add: attach_pdf_no_row)
next
  case (Cons r rs)
  with assms obtain p where
    "render_pdf h (cur_lang s) (print_format r) d (letter_head r) = Inr (Some p)"
    by (auto simp: fst_attach_pdf_row split: sum.splits option.splits)
  with Cons show ?thesis by blast
qed

lemma files_attach_pdf_not_Completed:
  "fst (attach_pdf h d s) \<noteq> Completed \<Longrightarrow> files (snd (attach_pdf h d s)) = files s"
proof (cases "settings_get (get_single h ''PDF on Submit Settings'') (doctype d)")
  case Nil
  then show ?thesis by (simp add: attach_pdf_no_row)
next
  case (Cons r rs)
  assume "fst (attach_pdf h d s) \<noteq> Completed"
  with Cons show ?thesis
    by (auto simp: fst_attach_pdf_row files_attach_pdf_row split: sum.splits option.splits)
qed

lemma calls_attach_pdf_completed:
  assumes "fst (attach_pdf h d s) = Completed"
  shows "\<exists>cs. calls (snd (attach_pdf h d s)) = calls s @ cs
      \<and> steps cs = [Fetch_settings, Render_PDF, Save_file] \<and> published cs = []"
proof -
  from assms obtain r rs p where
      row: "settings_get (get_single h ''PDF on Submit Settings'') (doctype d) = r # rs"
      and p: "render_pdf h (cur_lang s) (print_format r) d (letter_head r) = Inr (Some p)"
    using attach_pdf_Completed by blast
  let ?tf = "case target_folder r of None \<Rightarrow> Some ''Home'' | Some v \<Rightarrow> v"
  let ?pre = "[Get_single ''PDF on Submit Settings'',
        Log (''Generating PDF for '' @ doctype d @ '' '' @ str_name (name d)
              @ '' with print format '' @ str (print_format r)),
        Render_pdf (print_format r) d (letter_head r),
        Log (''PDF data generated successfully for '' @ str_name (name d))]"
  let ?s4 = "call (Log (''PDF data generated successfully for '' @ str_name (name d)))
      (call (Render_pdf (print_format r) d (letter_head r))
        (call (Log (''Generating PDF for '' @ doctype d @ '' '' @ str_name (name d)
                     @ '' with print format '' @ str (print_format r)))
          (call (Get_single ''PDF on Submit Settings'') s)))"
  let ?A = "save_and_attach h p (doctype d) (name d) ?tf (auto_name r) ?s4"
  let ?l = "Log (''PDF saved and attached successfully for '' @ str_name (name d))"
  obtain cs where cs: "calls (snd ?A) = calls ?s4 @ cs" "published cs = []"
      "case fst ?A of Inl e \<Rightarrow> True | Inr u \<Rightarrow> steps cs = [Save_file]"
    using calls_save_and_attach by blast
  from assms have ok: "fst ?A = Inr ()"
    by (auto simp: attach_pdf_row_Some [OF row p] Let_def split: sum.splits)
  then have "snd (attach_pdf h d s) = call ?l (snd ?A)"
    by (simp add: attach_pdf_row_Some [OF row p] Let_def)
  then have "calls (snd (attach_pdf h d s)) = calls s @ (?pre @ cs @ [?l])"
    using cs(1) by simp
  moreover have "steps (?pre @ cs @ [?l]) = [Fetch_settings, Render_PDF, Save_file]"
    using cs(3) ok by simp
  moreover have "published (?pre @ cs @ [?l]) = []"
    using cs(2) by simp
  ultimately show ?thesis by blast
qed

section \<open>The claims\<close>

lemmas demo_defs = so_row_def so_doc_def numbered_doc_def quotation_doc_def demo_host_def
  legacy_host_def legacy_failing_host_def legacy_pdf_failing_host_def type_error_host_def
  none_host_def full_disk_host_def demo_state_def

lemmas module_defs = attach_pdf_def execute_def execute_folders_def execute_render_def
  execute_einvoice_def execute_einvoice_failed_def execute_save_def save_and_attach_def
  save_and_attach_file_name_def get_pdf_data_def create_folder_def create_new_folder_def
  db_exists_file_def publish_progress_def set_name_from_naming_options_def settings_get_def
  join_path_def truthy_def str_def replace_def call_def new_calls_def new_files_def Let_def

lemma str_int_42: "str_int 42 = ''42''"
  by code_simp

text \<open>
  C1 as stated fails: \<^verbatim>\<open>save_and_attach\<close> is called after the \<^verbatim>\<open>try\<close> statement, and an
  exception of it leaves \<^verbatim>\<open>attach_pdf\<close> with no File stored, though the doctype is enabled
  and the renderer has returned PDF data.  Here the name of the document is an integer,
  which has no \<^verbatim>\<open>replace\<close>; and the host refuses to save the File.
\<close>

theorem attach_pdf_raises_counterexample:
  "settings_get (get_single demo_host ''PDF on Submit Settings'') (doctype numbered_doc)
      = [so_row]
   \<and> render_pdf demo_host (cur_lang demo_state) (print_format so_row) numbered_doc
        (letter_head so_row) = Inr (Some ''%PDF builder 42'')
   \<and> fst (attach_pdf demo_host numbered_doc demo_state)
        = Raised (AttributeError no_replace)
   \<and> files (snd (attach_pdf demo_host numbered_doc demo_state)) = []
   \<and> settings_get (get_single full_disk_host ''PDF on Submit Settings'') (doctype so_doc)
        = [so_row]
   \<and> render_pdf full_disk_host (cur_lang demo_state) (print_format so_row) so_doc
        (letter_head so_row) = Inr (Some ''%PDF builder SO/0001'')
   \<and> fst (attach_pdf full_disk_host so_doc demo_state)
        = Raised (Exception ''No space left on device'')
   \<and> files (snd (attach_pdf full_disk_host so_doc demo_state)) = []"
  by (simp add: demo_defs module_defs str_int_42)

text \<open>
  C1, as amended.  When the doctype of the document has an enabled row and the renderer
  returns PDF data for the print format and letter head of the first such row, what
  \<^verbatim>\<open>attach_pdf\<close> does is decided by the call of \<^verbatim>\<open>save_and_attach\<close> for that data, the
  document, and the folder and \<^verbatim>\<open>auto_name\<close> of the row.  When the call returns,
  \<^verbatim>\<open>attach_pdf\<close> runs to its end and stores exactly one new File: its content is that PDF
  data and it is attached to the doctype and the name of the document.  When the call
  raises, the exception leaves \<^verbatim>\<open>attach_pdf\<close> and no File is stored.
\<close>

theorem attach_pdf_attaches:
  assumes "settings_get (get_single h ''PDF on Submit Settings'') (doctype d) = r # rs"
    and "render_pdf h (cur_lang s) (print_format r) d (letter_head r) = Inr (Some p)"
  shows "(fst (save_and_attach h p (doctype d) (name d)
                (case target_folder r of None \<Rightarrow> Some ''Home'' | Some v \<Rightarrow> v)
                (auto_name r) s) = Inr ()
          \<longrightarrow> fst (attach_pdf h d s) = Completed
              \<and> (\<exists>f. files (snd (attach_pdf h d s)) = files s @ [f] \<and> content f = p
                    \<and> attached_to_doctype f = doctype d \<and> attached_to_name f = name d))
       \<and> (fst (save_and_attach h p (doctype d) (name d)
                (case target_folder r of None \<Rightarrow> Some ''Home'' | Some v \<Rightarrow> v)
                (auto_name r) s) = Inl e
          \<longrightarrow> fst (attach_pdf h d s) = Raised e
              \<and> files (snd (attach_pdf h d s)) = files s)"
proof (intro conjI impI)
  let ?tf = "case target_folder r of None \<Rightarrow> Some ''Home'' | Some v \<Rightarrow> v"
  assume "fst (save_and_attach h p (doctype d) (name d) ?tf (auto_name r) s) = Inr ()"
  then obtain f where
      f: "saved_file h p (doctype d) (name d) ?tf (auto_name r) = Inr f"
    by (auto simp: fst_save_and_attach split: sum.splits)
  show "fst (attach_pdf h d s) = Completed"
    using assms f by (simp add: fst_attach_pdf_row)
  have "files (snd (attach_pdf h d s)) = files s @ [f]"
    using assms f by (simp add: files_attach_pdf_row)
  moreover have "content f = p" "attached_to_doctype f = doctype d"
      "attached_to_name f = name d"
    using saved_file_fields [OF f] by simp_all
  ultimately show "\<exists>f. files (snd (attach_pdf h d s)) = files s @ [f] \<and> content f = p
      \<and> attached_to_doctype f = doctype d \<and> attached_to_name f = name d"
    by blast
next
  let ?tf = "case target_folder r of None \<Rightarrow> Some ''Home'' | Some v \<Rightarrow> v"
  assume "fst (save_and_attach h p (doctype d) (name d) ?tf (auto_name r) s) = Inl e"
  then have e: "saved_file h p (doctype d) (name d) ?tf (auto_name r) = Inl e"
    by (auto simp: fst_save_and_attach split: sum.splits)
  show "fst (attach_pdf h d s) = Raised e"
    using assms e by (simp add: fst_attach_pdf_row)
  show "files (snd (attach_pdf h d s)) = files s"
    using assms e by (simp add: files_attach_pdf_row)
qed

theorem attach_pdf_attaches_witness:
  "(settings_get (get_single demo_host ''PDF on Submit Settings'') (doctype so_doc) = [so_row]
    \<and> render_pdf demo_host (cur_lang demo_state) (print_format so_row) so_doc
         (letter_head so_row) = Inr (Some ''%PDF builder SO/0001'')
    \<and> fst (save_and_attach demo_host ''%PDF builder SO/0001'' (doctype so_doc) (name so_doc)
             (case target_folder so_row of None \<Rightarrow> Some ''Home'' | Some v \<Rightarrow> v)
             (auto_name so_row) demo_state) = Inr ()
    \<and> fst (attach_pdf demo_host so_doc demo_state) = Completed
    \<and> (\<exists>f. files (snd (attach_pdf demo_host so_doc demo_state)) = files demo_state @ [f]
           \<and> content f = ''%PDF builder SO/0001''
           \<and> attached_to_doctype f = doctype so_doc \<and> attached_to_name f = name so_doc))
   \<and> (settings_get (get_single full_disk_host ''PDF on Submit Settings'') (doctype so_doc)
        = [so_row]
      \<and> render_pdf full_disk_host (cur_lang demo_state) (print_format so_row) so_doc
           (letter_head so_row) = Inr (Some ''%PDF builder SO/0001'')
      \<and> fst (save_and_attach full_disk_host ''%PDF builder SO/0001'' (doctype so_doc)
               (name so_doc)
               (case target_folder so_row of None \<Rightarrow> Some ''Home'' | Some v \<Rightarrow> v)
               (auto_name so_row) demo_state) = Inl (Exception ''No space left on device'')
      \<and> fst (attach_pdf full_disk_host so_doc demo_state)
           = Raised (Exception ''No space left on device'')
      \<and> files (snd (attach_pdf full_disk_host so_doc demo_state)) = files demo_state)"
proof -
  have h1: "settings_get (get_single demo_host ''PDF on Submit Settings'') (doctype so_doc)
      = so_row # []"
    by (simp add: demo_defs settings_get_def)
  have h2: "render_pdf demo_host (cur_lang demo_state) (print_format so_row) so_doc
      (letter_head so_row) = Inr (Some ''%PDF builder SO/0001'')"
    by (simp add: demo_defs)
  have h3: "fst (save_and_attach demo_host ''%PDF builder SO/0001'' (doctype so_doc) (name so_doc)
      (case target_folder so_row of None \<Rightarrow> Some ''Home'' | Some v \<Rightarrow> v)
      (auto_name so_row) demo_state) = Inr ()"
    by (simp add: demo_defs module_defs)
  have g1: "settings_get (get_single full_disk_host ''PDF on Submit Settings'') (doctype so_doc)
      = so_row # []"
    by (simp add: demo_defs settings_get_def)
  have g2: "render_pdf full_disk_host (cur_lang demo_state) (print_format so_row) so_doc
      (letter_head so_row) = Inr (Some ''%PDF builder SO/0001'')"
    by (simp add: demo_defs)
  have g3: "fst (save_and_attach full_disk_host ''%PDF builder SO/0001'' (doctype so_doc)
      (name so_doc) (case target_folder so_row of None \<Rightarrow> Some ''Home'' | Some v \<Rightarrow> v)
      (auto_name so_row) demo_state) = Inl (Exception ''No space left on device'')"
    by (simp add: demo_defs module_defs)
  show ?thesis
    using h1 h2 h3 g1 g2 g3
      attach_pdf_attaches [OF h1 h2, where e = "Exception ''No space left on device''"]
      attach_pdf_attaches [OF g1 g2, where e = "Exception ''No space left on device''"]
    by simp
qed




text \<open>
  C3.  A run of \<^verbatim>\<open>execute\<close> with \<^verbatim>\<open>show_progress\<close> true that runs to its end publishes
  exactly four realtime events, all \<^verbatim>\<open>progress\<close> events for the document \<open>dt\<close>, \<open>nm\<close>, with
  the percentages 0, 33, 66, 100 in this order.  A run with \<^verbatim>\<open>show_progress\<close> false
  publishes no realtime event, however it ends.
\<close>

theorem execute_progress_events:
  "(fst (execute h dt nm ttl lng True an pf lh s) = Completed \<longrightarrow>
      published (new_calls s (snd (execute h dt nm ttl lng True an pf lh s))) =
        map (\<lambda>p. Publish_realtime ''progress''
                   \<lparr>percent = p, title = translate h (cur_lang s) ''Creating PDF ...'',
                    description = None\<rparr> dt nm)
          [0, 33, 66, 100])
   \<and> published (new_calls s (snd (execute h dt nm ttl lng False an pf lh s))) = []"
proof -
  obtain cs k m where t:
      "calls (snd (execute h dt nm ttl lng True an pf lh s)) = calls s @ cs"
      "fst (execute h dt nm ttl lng True an pf lh s) = Completed \<longrightarrow>
         published cs = (if True then map (progress_event h s dt nm) [0, 33, 66, 100] else [])"
    using calls_execute [of h dt nm ttl lng True an pf lh s] by auto
  obtain cs' k' m' where f:
      "calls (snd (execute h dt nm ttl lng False an pf lh s)) = calls s @ cs'"
      "\<not> False \<longrightarrow> published cs' = []"
    using calls_execute [of h dt nm ttl lng False an pf lh s] by auto
  from t f show ?thesis
    by (simp add: progress_event_def)
qed

theorem execute_progress_events_witness:
  "fst (execute demo_host ''Sales Order'' (Name_str ''SO/0001'') None None True None
          (Some ''Standard'') None demo_state) = Completed
   \<and> published (new_calls demo_state
        (snd (execute demo_host ''Sales Order'' (Name_str ''SO/0001'') None None True None
                (Some ''Standard'') None demo_state))) =
       map (\<lambda>p. Publish_realtime ''progress''
                  \<lparr>percent = p, title = ''Creating PDF ...'', description = None\<rparr>
                  ''Sales Order'' (Name_str ''SO/0001''))
         [0, 33, 66, 100]
   \<and> published (new_calls demo_state
        (snd (execute demo_host ''Sales Order'' (Name_str ''SO/0001'') None None False None
                (Some ''Standard'') None demo_state))) = []"
proof -
  have c: "fst (execute demo_host ''Sales Order'' (Name_str ''SO/0001'') None None True None
      (Some ''Standard'') None demo_state) = Completed"
    by (simp add: demo_defs module_defs)
  have t: "translate demo_host (cur_lang demo_state) ''Creating PDF ...'' = ''Creating PDF ...''"
    by (simp add: demo_defs)
  show ?thesis
    using c t execute_progress_events [of demo_host "''Sales Order''" "Name_str ''SO/0001''" None None
        None "Some ''Standard''" None demo_state]
    by simp
qed

text \<open>
  C4 as stated fails: in a run of \<^verbatim>\<open>execute\<close> that ends well the folders are made sure of
  before the PDF is rendered, and the settings are never read; a run of \<^verbatim>\<open>attach_pdf\<close>
  that ends well makes no folder.
\<close>

theorem listed_order_counterexample:
  "fst (execute demo_host ''Sales Order'' (Name_str ''SO/0001'') None None True None
          (Some ''Standard'') None demo_state) = Completed
   \<and> steps (new_calls demo_state
        (snd (execute demo_host ''Sales Order'' (Name_str ''SO/0001'') None None True None
                (Some ''Standard'') None demo_state)))
      = [Publish_progress 0, Create_folder_path, Create_folder_path, Publish_progress 33,
         Render_PDF, Publish_progress 66, Save_file, Publish_progress 100]
   \<and> \<not> listed_order (steps (new_calls demo_state
        (snd (execute demo_host ''Sales Order'' (Name_str ''SO/0001'') None None True None
                (Some ''Standard'') None demo_state))))
   \<and> fst (attach_pdf demo_host so_doc demo_state) = Completed
   \<and> steps (new_calls demo_state (snd (attach_pdf demo_host so_doc demo_state)))
      = [Fetch_settings, Render_PDF, Save_file]
   \<and> \<not> listed_order (steps (new_calls demo_state (snd (attach_pdf demo_host so_doc demo_state))))"
  by (simp add: demo_defs module_defs listed_order_def)

text \<open>
  C4, as amended.  A run of \<^verbatim>\<open>execute\<close> that ends well takes its steps in the order of the
  docstring: the folders are made sure of, then the PDF is rendered, then the File is
  saved; with \<^verbatim>\<open>show_progress\<close> the events 0, 33, 66 and 100 come before the folders,
  between folders and rendering, between rendering and saving, and after saving.  It never
  reads the settings.  A run of \<^verbatim>\<open>attach_pdf\<close> that ends well reads the settings, renders
  the PDF and saves the File, in this order, makes no folder and publishes no event.
\<close>

theorem handler_step_order:
  "(fst (execute h dt nm ttl lng show_progress an pf lh s) = Completed \<longrightarrow>
      (\<exists>k m. steps (new_calls s (snd (execute h dt nm ttl lng show_progress an pf lh s))) =
         (if show_progress then [Publish_progress 0] else [])
         @ replicate (Suc k) Create_folder_path
         @ (if show_progress then [Publish_progress 33] else [])
         @ replicate (Suc m) Render_PDF
         @ (if show_progress then [Publish_progress 66] else [])
         @ [Save_file]
         @ (if show_progress then [Publish_progress 100] else [])))
   \<and> (fst (attach_pdf h d s) = Completed \<longrightarrow>
        steps (new_calls s (snd (attach_pdf h d s))) = [Fetch_settings, Render_PDF, Save_file])"
proof (intro conjI impI)
  assume c: "fst (execute h dt nm ttl lng show_progress an pf lh s) = Completed"
  obtain cs k m where
      "calls (snd (execute h dt nm ttl lng show_progress an pf lh s)) = calls s @ cs"
      "fst (execute h dt nm ttl lng show_progress an pf lh s) = Completed \<longrightarrow>
         steps cs = (if show_progress then [Publish_progress 0] else [])
                    @ replicate (Suc k) Create_folder_path
                    @ (if show_progress then [Publish_progress 33] else [])
                    @ replicate (Suc m) Render_PDF
                    @ (if show_progress then [Publish_progress 66] else [])
                    @ [Save_file]
                    @ (if show_progress then [Publish_progress 100] else [])"
    using calls_execute [of h dt nm ttl lng show_progress an pf lh s] by auto
  with c have "steps (new_calls s (snd (execute h dt nm ttl lng show_progress an pf lh s))) =
         (if show_progress then [Publish_progress 0] else [])
         @ replicate (Suc k) Create_folder_path
         @ (if show_progress then [Publish_progress 33] else [])
         @ replicate (Suc m) Render_PDF
         @ (if show_progress then [Publish_progress 66] else [])
         @ [Save_file]
         @ (if show_progress then [Publish_progress 100] else [])"
    by (simp del: replicate_Suc)
  then show "\<exists>k m. steps (new_calls s (snd (execute h dt nm ttl lng show_progress an pf lh s))) =
         (if show_progress then [Publish_progress 0] else [])
         @ replicate (Suc k) Create_folder_path
         @ (if show_progress then [Publish_progress 33] else [])
         @ replicate (Suc m) Render_PDF
         @ (if show_progress then [Publish_progress 66] else [])
         @ [Save_file]
         @ (if show_progress then [Publish_progress 100] else [])"
    by blast
next
  assume "fst (attach_pdf h d s) = Completed"
  then obtain cs where "calls (snd (attach_pdf h d s)) = calls s @ cs"
      "steps cs = [Fetch_settings, Render_PDF, Save_file]"
    using calls_attach_pdf_completed by blast
  then show "steps (new_calls s (snd (attach_pdf h d s)))
      = [Fetch_settings, Render_PDF, Save_file]"
    by simp
qed

theorem handler_step_order_witness:
  "fst (execute demo_host ''Sales Order'' (Name_str ''SO/0001'') None None True None
          (Some ''Standard'') None demo_state) = Completed
   \<and> (\<exists>k m. steps (new_calls demo_state
         (snd (execute demo_host ''Sales Order'' (Name_str ''SO/0001'') None None True None
                 (Some ''Standard'') None demo_state))) =
         [Publish_progress 0] @ replicate (Suc k) Create_folder_path
         @ [Publish_progress 33] @ replicate (Suc m) Render_PDF
         @ [Publish_progress 66] @ [Save_file] @ [Publish_progress 100])
   \<and> fst (attach_pdf demo_host so_doc demo_state) = Completed
   \<and> steps (new_calls demo_state (snd (attach_pdf demo_host so_doc demo_state)))
       = [Fetch_settings, Render_PDF, Save_file]"
proof -
  have c: "fst (execute demo_host ''Sales Order'' (Name_str ''SO/0001'') None None True None
      (Some ''Standard'') None demo_state) = Completed"
    by (simp add: demo_defs module_defs)
  have a: "fst (attach_pdf demo_host so_doc demo_state) = Completed"
    by (simp add: demo_defs module_defs)
  show ?thesis
    using c a handler_step_order [of demo_host "''Sales Order''" "Name_str ''SO/0001''" None None True
        None "Some ''Standard''" None demo_state so_doc]
    by (simp del: replicate_Suc)
qed

text \<open>
  C5 as stated fails: with a print format that is not one of the print-format builder,
  \<^verbatim>\<open>execute\<close> renders through \<^verbatim>\<open>get_print\<close> and \<^verbatim>\<open>get_pdf\<close>, \<^verbatim>\<open>attach_pdf\<close> through the renderer of
  the print-format builder, and the two Files have different contents.
\<close>

theorem paths_content_counterexample:
  "settings_get (get_single legacy_host ''PDF on Submit Settings'') (doctype so_doc) = [so_row]
   \<and> fst (attach_pdf legacy_host so_doc demo_state) = Completed
   \<and> fst (execute legacy_host (doctype so_doc) (name so_doc) None None True (auto_name so_row)
            (print_format so_row) (letter_head so_row) demo_state) = Completed
   \<and> map content (new_files demo_state (snd (attach_pdf legacy_host so_doc demo_state)))
       = [''%PDF builder SO/0001'']
   \<and> map content (new_files demo_state
        (snd (execute legacy_host (doctype so_doc) (name so_doc) None None True
                (auto_name so_row) (print_format so_row) (letter_head so_row) demo_state)))
       = [''%PDF <html>SO/0001'']
   \<and> map content (new_files demo_state (snd (attach_pdf legacy_host so_doc demo_state)))
       \<noteq> map content (new_files demo_state
            (snd (execute legacy_host (doctype so_doc) (name so_doc) None None True
                    (auto_name so_row) (print_format so_row) (letter_head so_row) demo_state)))"
  by (simp add: demo_defs module_defs)

text \<open>
  C5, as amended.  For the same document and the same row of the settings, a run of
  \<^verbatim>\<open>attach_pdf\<close> and a run of \<^verbatim>\<open>execute\<close> that end well each store one File, with the same
  file name and the same attachment target.  The contents are the same when the print
  format is one of the print-format builder, \<^verbatim>\<open>get_doc\<close> gives the submitted document,
  the language of the block is the language \<^verbatim>\<open>attach_pdf\<close> runs in, and the e-invoice
  hook does not apply.
\<close>

theorem paths_same_name_and_target:
  assumes "settings_get (get_single h ''PDF on Submit Settings'') (doctype d) = r # rs"
    and "fst (attach_pdf h d s) = Completed"
    and "fst (execute h (doctype d) (name d) ttl lng show_progress (auto_name r)
                (print_format r) (letter_head r) s') = Completed"
  shows "\<exists>f g. new_files s (snd (attach_pdf h d s)) = [f]
      \<and> new_files s' (snd (execute h (doctype d) (name d) ttl lng show_progress (auto_name r)
                             (print_format r) (letter_head r) s')) = [g]
      \<and> file_name f = file_name g
      \<and> attached_to_doctype f = attached_to_doctype g
      \<and> attached_to_name f = attached_to_name g
      \<and> (print_format_builder_beta h (print_format r)
           \<and> get_doc h (doctype d) (name d) = Inr d
           \<and> print_language h lng (cur_lang s') = cur_lang s
           \<and> \<not> (doctype d = ''Sales Invoice'' \<and> ''eu_einvoice'' \<in> set (get_installed_apps h))
         \<longrightarrow> content f = content g)"
proof -
  let ?tfa = "case target_folder r of None \<Rightarrow> Some ''Home'' | Some v \<Rightarrow> v"
  let ?tfe = "Some (fst (execute_folders h (doctype d) (name d) ttl show_progress s'))"
  from assms(1,2) obtain p f where
      p: "render_pdf h (cur_lang s) (print_format r) d (letter_head r) = Inr (Some p)"
      and f: "saved_file h p (doctype d) (name d) ?tfa (auto_name r) = Inr f"
    by (auto simp: fst_attach_pdf_row split: sum.splits option.splits)
  from assms(3) obtain q g where
      q: "fst (execute_render h (doctype d) (name d) lng (print_format r) (letter_head r) s')
            = Inr q"
      and g: "saved_file h (fst (execute_einvoice h (doctype d) (name d) show_progress q s'))
                (doctype d) (name d) ?tfe (auto_name r) = Inr g"
    using fst_execute_render_not_Completed
    by (auto simp: fst_execute split: sum.splits)
  have nf: "new_files s (snd (attach_pdf h d s)) = [f]"
    using assms(1) p f by (simp add: files_attach_pdf_row)
  have ng: "new_files s' (snd (execute h (doctype d) (name d) ttl lng show_progress (auto_name r)
      (print_format r) (letter_head r) s')) = [g]"
    using q g by (simp add: files_execute)
  from saved_file_fields(6) [OF f] saved_file_fields(6) [OF g]
  have fn: "file_name f = file_name g" by auto
  have td: "attached_to_doctype f = attached_to_doctype g"
    using saved_file_fields(4) [OF f] saved_file_fields(4) [OF g] by simp
  have tn: "attached_to_name f = attached_to_name g"
    using saved_file_fields(5) [OF f] saved_file_fields(5) [OF g] by simp
  have c: "content f = content g"
    if "print_format_builder_beta h (print_format r)
        \<and> get_doc h (doctype d) (name d) = Inr d
        \<and> print_language h lng (cur_lang s') = cur_lang s
        \<and> \<not> (doctype d = ''Sales Invoice'' \<and> ''eu_einvoice'' \<in> set (get_installed_apps h))"
  proof -
    from that q p have "q = p"
      by (simp add: fst_execute_render Let_def)
    moreover from that have
      "fst (execute_einvoice h (doctype d) (name d) show_progress q s') = q"
      by (auto simp: fst_execute_einvoice)
    ultimately show ?thesis
      using saved_file_fields(1) [OF f] saved_file_fields(1) [OF g] by simp
  qed
  from nf ng fn td tn c show ?thesis by blast
qed

theorem paths_same_name_and_target_witness:
  "settings_get (get_single demo_host ''PDF on Submit Settings'') (doctype so_doc) = [so_row]
   \<and> fst (attach_pdf demo_host so_doc demo_state) = Completed
   \<and> fst (execute demo_host (doctype so_doc) (name so_doc) None None True (auto_name so_row)
            (print_format so_row) (letter_head so_row) demo_state) = Completed
   \<and> print_format_builder_beta demo_host (print_format so_row)
   \<and> get_doc demo_host (doctype so_doc) (name so_doc) = Inr so_doc
   \<and> print_language demo_host None (cur_lang demo_state) = cur_lang demo_state
   \<and> \<not> (doctype so_doc = ''Sales Invoice'' \<and> ''eu_einvoice'' \<in> set (get_installed_apps demo_host))
   \<and> (\<exists>f g. new_files demo_state (snd (attach_pdf demo_host so_doc demo_state)) = [f]
        \<and> new_files demo_state
            (snd (execute demo_host (doctype so_doc) (name so_doc) None None True
                    (auto_name so_row) (print_format so_row) (letter_head so_row) demo_state))
            = [g]
        \<and> file_name f = file_name g
        \<and> attached_to_doctype f = attached_to_doctype g
        \<and> attached_to_name f = attached_to_name g
        \<and> content f = content g)"
proof -
  have h1: "settings_get (get_single demo_host ''PDF on Submit Settings'') (doctype so_doc)
      = so_row # []"
    by (simp add: demo_defs settings_get_def)
  have h2: "fst (attach_pdf demo_host so_doc demo_state) = Completed"
    by (simp add: demo_defs module_defs)
  have h3: "fst (execute demo_host (doctype so_doc) (name so_doc) None None True
      (auto_name so_row) (print_format so_row) (letter_head so_row) demo_state) = Completed"
    by (simp add: demo_defs module_defs)
  have h4: "print_format_builder_beta demo_host (print_format so_row)
      \<and> get_doc demo_host (doctype so_doc) (name so_doc) = Inr so_doc
      \<and> print_language demo_host None (cur_lang demo_state) = cur_lang demo_state
      \<and> \<not> (doctype so_doc = ''Sales Invoice''
            \<and> ''eu_einvoice'' \<in> set (get_installed_apps demo_host))"
    by (simp add: demo_defs)
  show ?thesis
    using h1 h2 h3 h4 paths_same_name_and_target [OF h1 h2 h3] by blast
qed

text \<open>
  C6.  The result of \<^verbatim>\<open>get_pdf_data\<close> is what \<^verbatim>\<open>get_pdf\<close> makes of the HTML that
  \<^verbatim>\<open>get_print\<close> returns for the document, the print format and the letter head; when
  \<^verbatim>\<open>get_print\<close> raises there is no HTML and the exception is the result.  The two host
  calls are made in this order.
\<close>

theorem get_pdf_data_pipeline:
  "fst (get_pdf_data h dt nm pf lh s) =
     (case get_print h (cur_lang s) dt nm pf lh of
        Inl e \<Rightarrow> Inl e
      | Inr page \<Rightarrow> get_pdf h (cur_lang s) page)
   \<and> steps (new_calls s (snd (get_pdf_data h dt nm pf lh s))) =
     (case get_print h (cur_lang s) dt nm pf lh of
        Inl e \<Rightarrow> [Render_PDF]
      | Inr page \<Rightarrow> [Render_PDF, Render_PDF])
   \<and> filter (\<lambda>c. step_of c \<noteq> []) (new_calls s (snd (get_pdf_data h dt nm pf lh s))) =
     (case get_print h (cur_lang s) dt nm pf lh of
        Inl e \<Rightarrow> [Get_print dt nm pf lh]
      | Inr page \<Rightarrow> [Get_print dt nm pf lh, Get_pdf page])"
  by (simp add: get_pdf_data_def Let_def new_calls_def split: sum.splits)

text \<open>
  C7.  Every File \<^verbatim>\<open>save_and_attach\<close> stores has \<^verbatim>\<open>is_private\<close> 0, whatever the content, the
  target document, the folder and the \<^verbatim>\<open>auto_name\<close>: a call that returns stores exactly
  one File, with \<^verbatim>\<open>is_private\<close> 0, and a call that raises stores none.
\<close>

theorem save_and_attach_is_public:
  "map is_private (new_files s (snd (save_and_attach h cnt to_doctype to_name fld an s))) =
     (case fst (save_and_attach h cnt to_doctype to_name fld an s) of
        Inl e \<Rightarrow> []
      | Inr u \<Rightarrow> [0])"
proof (cases "saved_file h cnt to_doctype to_name fld an")
  case (Inl e)
  then show ?thesis by (simp add: files_save_and_attach fst_save_and_attach)
next
  case (Inr f)
  with saved_file_fields(3) [OF Inr] show ?thesis
    by (simp add: files_save_and_attach fst_save_and_attach)
qed

theorem save_and_attach_is_public_witness:
  "fst (save_and_attach demo_host ''%PDF'' ''Sales Order'' (Name_str ''SO/0001'') (Some ''Home'')
          None demo_state) = Inr ()
   \<and> map is_private (new_files demo_state
         (snd (save_and_attach demo_host ''%PDF'' ''Sales Order'' (Name_str ''SO/0001'')
                 (Some ''Home'') None demo_state))) = [0]"
proof -
  have r: "fst (save_and_attach demo_host ''%PDF'' ''Sales Order'' (Name_str ''SO/0001'')
      (Some ''Home'') None demo_state) = Inr ()"
    by (simp add: demo_defs module_defs)
  show ?thesis
    using r save_and_attach_is_public [where h = demo_host and cnt = "''%PDF''"
        and to_doctype = "''Sales Order''" and to_name = "Name_str ''SO/0001''"
        and fld = "Some ''Home''" and an = None and s = demo_state]
    by simp
qed

lemma chosen_name_eq:
  "chosen_name h to_doctype to_name an =
     (case an of
        None \<Rightarrow> Inr to_name
      | Some a \<Rightarrow>
          if a \<noteq> []
          then (case get_doc h to_doctype to_name of
                  Inl e \<Rightarrow> Inl e
                | Inr d \<Rightarrow> fst (set_name_from_naming_options h a d s))
          else Inr to_name)"
  by (simp add: chosen_name_def split: option.splits sum.splits)

text \<open>
  C8.  The file name of the File that \<^verbatim>\<open>save_and_attach\<close> stores is a base followed by
  \<^verbatim>\<open>.pdf\<close>; the base has no \<^verbatim>\<open>/\<close>: it is the chosen name (the name made from \<^verbatim>\<open>auto_name\<close>
  when one is given, the name of the document otherwise) with every \<^verbatim>\<open>/\<close> turned into
  \<^verbatim>\<open>-\<close> and every other character kept.  A call that returns stores exactly one such
  File; a call that raises stores none.
\<close>

theorem save_and_attach_file_name:
  "case fst (save_and_attach h cnt to_doctype to_name fld an s) of
     Inl e \<Rightarrow> new_files s (snd (save_and_attach h cnt to_doctype to_name fld an s)) = []
   | Inr u \<Rightarrow>
       (\<exists>base chosen.
          map file_name (new_files s (snd (save_and_attach h cnt to_doctype to_name fld an s)))
            = [base @ ''.pdf'']
          \<and> CHR ''/'' \<notin> set base
          \<and> base = map (\<lambda>c. if c = CHR ''/'' then CHR ''-'' else c) chosen
          \<and> Inr (Name_str chosen) =
              (case an of
                 None \<Rightarrow> Inr to_name
               | Some a \<Rightarrow>
                   if a \<noteq> []
                   then (case get_doc h to_doctype to_name of
                           Inl e \<Rightarrow> Inl e
                         | Inr d \<Rightarrow> fst (set_name_from_naming_options h a d s))
                   else Inr to_name))"
proof (cases "saved_file h cnt to_doctype to_name fld an")
  case (Inl e)
  then show ?thesis by (simp add: files_save_and_attach fst_save_and_attach)
next
  case (Inr f)
  from saved_file_fields(6) [OF Inr] obtain n where
      n: "chosen_name h to_doctype to_name an = Inr (Name_str n)"
      "file_name f = replace CHR ''/'' CHR ''-'' n @ ''.pdf''"
    by blast
  have "\<exists>base chosen.
      map file_name (new_files s (snd (save_and_attach h cnt to_doctype to_name fld an s)))
        = [base @ ''.pdf'']
      \<and> CHR ''/'' \<notin> set base
      \<and> base = map (\<lambda>c. if c = CHR ''/'' then CHR ''-'' else c) chosen
      \<and> Inr (Name_str chosen) =
          (case an of
             None \<Rightarrow> Inr to_name
           | Some a \<Rightarrow>
               if a \<noteq> []
               then (case get_doc h to_doctype to_name of
                       Inl e \<Rightarrow> Inl e
                     | Inr d \<Rightarrow> fst (set_name_from_naming_options h a d s))
               else Inr to_name)"
  proof (intro exI conjI)
    show "map file_name (new_files s (snd (save_and_attach h cnt to_doctype to_name fld an s)))
        = [replace CHR ''/'' CHR ''-'' n @ ''.pdf'']"
      using Inr n(2) by (simp add: files_save_and_attach)
    show "CHR ''/'' \<notin> set (replace CHR ''/'' CHR ''-'' n)"
      by (auto simp: replace_def)
    show "replace CHR ''/'' CHR ''-'' n = map (\<lambda>c. if c = CHR ''/'' then CHR ''-'' else c) n"
      by (simp add: replace_def)
    show "Inr (Name_str n) =
        (case an of
           None \<Rightarrow> Inr to_name
         | Some a \<Rightarrow>
             if a \<noteq> []
             then (case get_doc h to_doctype to_name of
                     Inl e \<Rightarrow> Inl e
                   | Inr d \<Rightarrow> fst (set_name_from_naming_options h a d s))
             else Inr to_name)"
      using n(1) chosen_name_eq [of h to_doctype to_name an s] by simp
  qed
  with Inr show ?thesis by (simp add: fst_save_and_attach)
qed

theorem save_and_attach_file_name_witness:
  "fst (save_and_attach demo_host ''%PDF'' ''Sales Order'' (Name_str ''SO/0001'') (Some ''Home'')
          None demo_state) = Inr ()
   \<and> map file_name (new_files demo_state
         (snd (save_and_attach demo_host ''%PDF'' ''Sales Order'' (Name_str ''SO/0001'')
                 (Some ''Home'') None demo_state))) = [''SO-0001.pdf'']"
proof -
  have r: "fst (save_and_attach demo_host ''%PDF'' ''Sales Order'' (Name_str ''SO/0001'')
      (Some ''Home'') None demo_state) = Inr ()"
    by (simp add: demo_defs module_defs)
  show ?thesis
    using r save_and_attach_file_name [where h = demo_host and cnt = "''%PDF''"
        and to_doctype = "''Sales Order''" and to_name = "Name_str ''SO/0001''"
        and fld = "Some ''Home''" and an = None and s = demo_state]
    by auto
qed

text \<open>
  C9.  When no row of \<^verbatim>\<open>enabled_for\<close> matches the doctype of the document, \<^verbatim>\<open>attach_pdf\<close>
  returns without raising; its only host calls are the reading of the settings and one
  \<^verbatim>\<open>log_error\<close>, so the renderer is not called; and no File is stored.
\<close>

theorem attach_pdf_not_enabled:
  assumes "settings_get (get_single h ''PDF on Submit Settings'') (doctype d) = []"
  shows "fst (attach_pdf h d s) = Returned
    \<and> new_calls s (snd (attach_pdf h d s)) =
        [Get_single ''PDF on Submit Settings'',
         Log_error (''No enabled doctype found for '' @ doctype d)]
    \<and> files (snd (attach_pdf h d s)) = files s"
  using assms by (simp add: attach_pdf_no_row new_calls_def)

theorem attach_pdf_not_enabled_witness:
  "settings_get (get_single demo_host ''PDF on Submit Settings'') (doctype quotation_doc) = []
   \<and> fst (attach_pdf demo_host quotation_doc demo_state) = Returned
   \<and> new_calls demo_state (snd (attach_pdf demo_host quotation_doc demo_state)) =
       [Get_single ''PDF on Submit Settings'',
        Log_error ''No enabled doctype found for Quotation'']
   \<and> files (snd (attach_pdf demo_host quotation_doc demo_state)) = []"
proof -
  have h1: "settings_get (get_single demo_host ''PDF on Submit Settings'')
      (doctype quotation_doc) = []"
    by (simp add: demo_defs settings_get_def)
  have d: "doctype quotation_doc = ''Quotation''" "files demo_state = []"
    by (simp_all add: demo_defs)
  show ?thesis
    using h1 d attach_pdf_not_enabled [OF h1, of demo_state] by simp
qed

end
